theory Spec2Isabelle
  imports Complex_Main
begin

section \<open>Values, exceptions and the library the code calls\<close>

text \<open>
  The pipeline is Python. A raised exception is the \<open>Inl\<close> branch of a sum, a returned
  value the \<open>Inr\<close> branch. Only the exception classes the code distinguishes (in an
  \<open>except\<close> clause or in the retry predicate) are kept apart.
\<close>

datatype pyexn =
    ValueError
  | TypeError
  | OverflowError
  | IntegrityError
  | TimeoutException
  | NetworkError
  | HTTPStatusError nat
  | RetryError pyexn
  | OtherError string

definition ebind :: "pyexn + 'a \<Rightarrow> ('a \<Rightarrow> pyexn + 'b) \<Rightarrow> pyexn + 'b" where
  "ebind m f = (case m of Inl e \<Rightarrow> Inl e | Inr x \<Rightarrow> f x)"

text \<open>
  A naive \<open>datetime\<close>: the proleptic Gregorian day number (\<open>date.toordinal()\<close>) and the
  time of day. Python compares two naive datetimes field by field in this order.
\<close>

record datetime =
  ordinal :: int
  hour :: nat
  minute :: nat
  second :: nat
  microsecond :: nat

definition dt_less :: "datetime \<Rightarrow> datetime \<Rightarrow> bool" where
  "dt_less a b =
     (ordinal a < ordinal b \<or> (ordinal a = ordinal b \<and>
       (hour a < hour b \<or> (hour a = hour b \<and>
         (minute a < minute b \<or> (minute a = minute b \<and>
           (second a < second b \<or> (second a = second b \<and>
             microsecond a < microsecond b))))))))"

text \<open>
  A value of a decoded JSON payload (plus an already typed instant). The float type is
  left open: \<open>'f\<close> stands for Python's 64-bit floats, whose arithmetic and parsing are
  operations of the library record below, so that nothing is assumed about rounding.
\<close>

datatype 'f pyval =
    VNone
  | VBool bool
  | VInt int
  | VFloat 'f
  | VStr string
  | VDatetime datetime
  | VList "'f pyval list"
  | VDict "(string \<times> 'f pyval) list"

type_synonym 'f raw = "(string \<times> 'f pyval) list"

text \<open>
  What the code takes from the interpreter and from \<open>dateutil\<close>, as parameters:
  the float nearest to an integer in range, \<open>float(s)\<close> on text (\<open>None\<close> when it raises
  ValueError), float addition, subtraction and division, the constants \<open>0.0\<close> and
  \<open>2.0\<close>, \<open>str(v)\<close> for the values that are not text, \<open>dateutil.parser.parse\<close> and
  the clock reading of \<open>datetime.utcnow()\<close>.
\<close>

record 'f pylib =
  float_of_int :: "int \<Rightarrow> 'f"
  float_of_str :: "string \<Rightarrow> 'f option"
  fadd :: "'f \<Rightarrow> 'f \<Rightarrow> 'f"
  fsub :: "'f \<Rightarrow> 'f \<Rightarrow> 'f"
  fdiv :: "'f \<Rightarrow> 'f \<Rightarrow> 'f"
  fzero :: "'f"
  ftwo :: "'f"
  repr_val :: "'f pyval \<Rightarrow> string"
  parse_date :: "string \<Rightarrow> pyexn + datetime"
  utcnow :: datetime

text \<open>\<open>raw.get(key)\<close> and \<open>raw.get(key, default)\<close>.\<close>

definition dict_get :: "'f raw \<Rightarrow> string \<Rightarrow> 'f pyval" where
  "dict_get raw k = (case map_of raw k of None \<Rightarrow> VNone | Some v \<Rightarrow> v)"

definition dict_get_default :: "'f raw \<Rightarrow> string \<Rightarrow> 'f pyval \<Rightarrow> 'f pyval" where
  "dict_get_default raw k d = (case map_of raw k of None \<Rightarrow> d | Some v \<Rightarrow> v)"

text \<open>\<open>str(v)\<close>: text is returned as it is.\<close>

definition py_str :: "'f pylib \<Rightarrow> 'f pyval \<Rightarrow> string" where
  "py_str L v =
     (case v of
        VStr s \<Rightarrow> s
      | VNone \<Rightarrow> ''None''
      | VBool b \<Rightarrow> (if b then ''True'' else ''False'')
      | _ \<Rightarrow> repr_val L v)"

text \<open>
  The builtin \<open>float(v)\<close>. An integer that rounds beyond the largest double
  (\<open>2^1024 - 2^971\<close>) raises OverflowError; text that is no number raises ValueError;
  \<open>None\<close>, a list, a dict or a datetime raises TypeError.
\<close>

definition float_limit :: int where
  "float_limit = 2 ^ 1024 - 2 ^ 970"

definition py_float :: "'f pylib \<Rightarrow> 'f pyval \<Rightarrow> pyexn + 'f" where
  "py_float L v =
     (case v of
        VFloat x \<Rightarrow> Inr x
      | VInt i \<Rightarrow> (if float_limit \<le> \<bar>i\<bar> then Inl OverflowError else Inr (float_of_int L i))
      | VBool b \<Rightarrow> Inr (float_of_int L (if b then 1 else 0))
      | VStr s \<Rightarrow> (case float_of_str L s of None \<Rightarrow> Inl ValueError | Some x \<Rightarrow> Inr x)
      | _ \<Rightarrow> Inl TypeError)"

section \<open>Normalization schemas\<close>

text \<open>
  \<open>_parse_datetime\<close> and \<open>_parse_float\<close> of \<open>connectors/polymarket/schemas.py\<close>. Each
  handler catches \<open>(ValueError, TypeError)\<close> and nothing else, so any other exception
  of the call in the \<open>try\<close> block leaves the function.
\<close>

definition parse_datetime :: "'f pylib \<Rightarrow> 'f pyval \<Rightarrow> pyexn + datetime option" where
  "parse_datetime L v =
     (case v of
        VNone \<Rightarrow> Inr None
      | VDatetime d \<Rightarrow> Inr (Some d)
      | VStr s \<Rightarrow>
          (case parse_date L s of
             Inr d \<Rightarrow> Inr (Some d)
           | Inl ValueError \<Rightarrow> Inr None
           | Inl TypeError \<Rightarrow> Inr None
           | Inl e \<Rightarrow> Inl e)
      | _ \<Rightarrow> Inr None)"

definition parse_float :: "'f pylib \<Rightarrow> 'f pyval \<Rightarrow> 'f option \<Rightarrow> pyexn + 'f option" where
  "parse_float L v dflt =
     (case v of
        VNone \<Rightarrow> Inr dflt
      | _ \<Rightarrow>
          (case py_float L v of
             Inr x \<Rightarrow> Inr (Some x)
           | Inl ValueError \<Rightarrow> Inr dflt
           | Inl TypeError \<Rightarrow> Inr dflt
           | Inl e \<Rightarrow> Inl e))"

text \<open>
  The canonical records are the dicts the normalizers return, one field per key. Fields
  the code copies with \<open>raw.get\<close> keep whatever value the payload held.
\<close>

record 'f market =
  mk_market_id :: string
  mk_source :: string
  mk_question :: "'f pyval"
  mk_description :: "'f pyval"
  mk_end_date :: "datetime option"
  mk_resolution_source :: "'f pyval"
  mk_category :: "'f pyval"
  mk_tags :: "'f pyval"
  mk_liquidity :: "'f option"
  mk_volume_24h :: "'f option"
  mk_created_at :: "datetime option"
  mk_updated_at :: "datetime option"
  mk_raw_data :: "'f raw"

record 'f trade =
  tr_trade_id :: string
  tr_source :: string
  tr_market_id :: string
  tr_outcome_id :: string
  tr_price :: "'f option"
  tr_quantity :: "'f option"
  tr_timestamp :: "datetime option"
  tr_side :: "'f pyval"
  tr_taker_address :: "'f pyval"
  tr_maker_address :: "'f pyval"
  tr_transaction_hash :: "'f pyval"
  tr_raw_data :: "'f raw"

record 'f price_snapshot =
  ps_market_id :: string
  ps_source :: string
  ps_outcome_id :: string
  ps_timestamp :: "datetime option"
  ps_implied_probability :: "'f option"
  ps_bid :: "'f option"
  ps_ask :: "'f option"
  ps_mid :: "'f option"
  ps_spread :: "'f option"
  ps_volume_24h :: "'f option"
  ps_liquidity :: "'f option"
  ps_raw_data :: "'f raw"

definition normalize_market_from_raw :: "'f pylib \<Rightarrow> 'f raw \<Rightarrow> string \<Rightarrow> pyexn + 'f market" where
  "normalize_market_from_raw L raw src =
     (let market_id = py_str L (dict_get_default raw ''id'' (VStr ''''));
          question = dict_get_default raw ''question'' (VStr '''');
          description = dict_get raw ''description''
      in ebind (parse_datetime L (dict_get raw ''endDate'')) (\<lambda>end_date.
         let resolution_source = dict_get raw ''resolutionSource'';
             category = dict_get raw ''category'';
             tags = dict_get_default raw ''tags'' (VList [])
         in ebind (parse_float L (dict_get raw ''liquidity'') None) (\<lambda>liquidity.
            ebind (parse_float L (dict_get raw ''volume24h'') None) (\<lambda>volume_24h.
            ebind (parse_datetime L (dict_get raw ''createdAt'')) (\<lambda>created_at.
            ebind (parse_datetime L (dict_get raw ''updatedAt'')) (\<lambda>updated_at.
            Inr \<lparr> mk_market_id = market_id, mk_source = src, mk_question = question,
                  mk_description = description, mk_end_date = end_date,
                  mk_resolution_source = resolution_source, mk_category = category,
                  mk_tags = tags, mk_liquidity = liquidity, mk_volume_24h = volume_24h,
                  mk_created_at = created_at, mk_updated_at = updated_at,
                  mk_raw_data = raw \<rparr>))))))"

definition normalize_trade_from_raw :: "'f pylib \<Rightarrow> 'f raw \<Rightarrow> string \<Rightarrow> pyexn + 'f trade" where
  "normalize_trade_from_raw L raw src =
     (let trade_id = py_str L (dict_get_default raw ''id'' (VStr ''''));
          market_id = py_str L (dict_get_default raw ''marketId'' (VStr ''''));
          outcome_id = py_str L (dict_get_default raw ''outcomeId'' (VStr ''''))
      in ebind (parse_float L (dict_get raw ''price'') (Some (fzero L))) (\<lambda>price.
         ebind (parse_float L (dict_get raw ''quantity'') (Some (fzero L))) (\<lambda>quantity.
         ebind (parse_datetime L (dict_get raw ''timestamp'')) (\<lambda>timestamp.
         Inr \<lparr> tr_trade_id = trade_id, tr_source = src, tr_market_id = market_id,
               tr_outcome_id = outcome_id, tr_price = price, tr_quantity = quantity,
               tr_timestamp = timestamp, tr_side = dict_get raw ''side'',
               tr_taker_address = dict_get raw ''takerAddress'',
               tr_maker_address = dict_get raw ''makerAddress'',
               tr_transaction_hash = dict_get raw ''transactionHash'',
               tr_raw_data = raw \<rparr>))))"

definition normalize_price_snapshot_from_raw ::
    "'f pylib \<Rightarrow> 'f raw \<Rightarrow> string \<Rightarrow> pyexn + 'f price_snapshot" where
  "normalize_price_snapshot_from_raw L raw src =
     (let market_id = py_str L (dict_get_default raw ''marketId'' (VStr ''''));
          outcome_id = py_str L (dict_get_default raw ''outcomeId'' (VStr ''''))
      in ebind (parse_datetime L (dict_get raw ''timestamp'')) (\<lambda>parsed.
         let timestamp = (case parsed of None \<Rightarrow> utcnow L | Some d \<Rightarrow> d)
         in ebind (parse_float L (dict_get raw ''impliedProbability'') (Some (fzero L)))
              (\<lambda>implied_probability.
            ebind (parse_float L (dict_get raw ''bid'') None) (\<lambda>bid.
            ebind (parse_float L (dict_get raw ''ask'') None) (\<lambda>ask.
            ebind (parse_float L (dict_get raw ''mid'') None) (\<lambda>mid0.
            ebind (parse_float L (dict_get raw ''spread'') None) (\<lambda>spread0.
            ebind (parse_float L (dict_get raw ''volume24h'') None) (\<lambda>volume_24h.
            ebind (parse_float L (dict_get raw ''liquidity'') None) (\<lambda>liquidity.
            let mid = (if mid0 = None \<and> bid \<noteq> None \<and> ask \<noteq> None
                       then Some (fdiv L (fadd L (the bid) (the ask)) (ftwo L)) else mid0);
                spread = (if spread0 = None \<and> bid \<noteq> None \<and> ask \<noteq> None
                          then Some (fsub L (the ask) (the bid)) else spread0)
            in Inr \<lparr> ps_market_id = market_id, ps_source = src, ps_outcome_id = outcome_id,
                     ps_timestamp = Some timestamp,
                     ps_implied_probability = implied_probability,
                     ps_bid = bid, ps_ask = ask, ps_mid = mid, ps_spread = spread,
                     ps_volume_24h = volume_24h, ps_liquidity = liquidity,
                     ps_raw_data = raw \<rparr>)))))))))"

section \<open>Storage backend\<close>

text \<open>
  \<open>storage/postgres.py\<close>. A table is the list of its rows in insertion order. The
  archive's \<open>request_id\<close> is a fresh \<open>uuid4\<close>; the model numbers the archive rows
  instead. The columns filled by the database clock (\<open>timestamp\<close>, \<open>updated_at\<close>) are
  left out.
\<close>

record 'f raw_api_response =
  rr_request_id :: nat
  rr_source :: string
  rr_endpoint :: string
  rr_response_json :: "'f pyval"
  rr_status_code :: int
  rr_metadata :: "'f pyval"

record checkpoint =
  ck_source :: string
  ck_data_type :: string
  ck_last_sync_timestamp :: datetime

record 'f db =
  raw_api_responses :: "'f raw_api_response list"
  markets :: "'f market list"
  trades :: "'f trade list"
  price_snapshots :: "'f price_snapshot list"
  ingestion_checkpoints :: "checkpoint list"

text \<open>
  A session holds the committed database and the transaction's working copy.
  \<open>commit\<close> publishes the working copy, \<open>rollback\<close> discards it, and after \<open>close\<close> only
  the committed database remains.
\<close>

record 'f session =
  committed :: "'f db"
  working :: "'f db"

definition SessionLocal :: "'f db \<Rightarrow> 'f session" where
  "SessionLocal d = \<lparr> committed = d, working = d \<rparr>"

definition session_commit :: "'f session \<Rightarrow> 'f session" where
  "session_commit s = s\<lparr> committed := working s \<rparr>"

definition session_rollback :: "'f session \<Rightarrow> 'f session" where
  "session_rollback s = s\<lparr> working := committed s \<rparr>"

definition session_close :: "'f session \<Rightarrow> 'f db" where
  "session_close s = committed s"

text \<open>
  The columns declared \<open>nullable=False\<close>. The text columns cannot be null in the
  model; the others can. Writing a row with a null in such a column makes the
  database reject the statement when the session flushes it (at the next query or at
  commit), which raises IntegrityError inside the \<open>try\<close> block either way.
\<close>

definition market_not_null :: "'f market \<Rightarrow> bool" where
  "market_not_null m = (mk_question m \<noteq> VNone)"

definition trade_not_null :: "'f trade \<Rightarrow> bool" where
  "trade_not_null t = (tr_price t \<noteq> None \<and> tr_quantity t \<noteq> None \<and> tr_timestamp t \<noteq> None)"

definition price_snapshot_not_null :: "'f price_snapshot \<Rightarrow> bool" where
  "price_snapshot_not_null p = (ps_timestamp p \<noteq> None \<and> ps_implied_probability p \<noteq> None)"

text \<open>The natural keys: the columns of each \<open>filter_by\<close>.\<close>

definition market_key :: "'f market \<Rightarrow> string \<times> string" where
  "market_key m = (mk_market_id m, mk_source m)"

definition trade_key :: "'f trade \<Rightarrow> string \<times> string" where
  "trade_key t = (tr_trade_id t, tr_source t)"

definition price_snapshot_key ::
    "'f price_snapshot \<Rightarrow> string \<times> string \<times> datetime option \<times> string" where
  "price_snapshot_key p = (ps_market_id p, ps_outcome_id p, ps_timestamp p, ps_source p)"

text \<open>
  The \<open>setattr\<close> loop of the update branch: every key of the incoming record that is not
  a natural-key column is assigned to the existing row.
\<close>

definition update_market :: "'f market \<Rightarrow> 'f market \<Rightarrow> 'f market" where
  "update_market existing m =
     existing\<lparr> mk_question := mk_question m, mk_description := mk_description m,
               mk_end_date := mk_end_date m, mk_resolution_source := mk_resolution_source m,
               mk_category := mk_category m, mk_tags := mk_tags m,
               mk_liquidity := mk_liquidity m, mk_volume_24h := mk_volume_24h m,
               mk_created_at := mk_created_at m, mk_updated_at := mk_updated_at m,
               mk_raw_data := mk_raw_data m \<rparr>"

definition update_trade :: "'f trade \<Rightarrow> 'f trade \<Rightarrow> 'f trade" where
  "update_trade existing t =
     existing\<lparr> tr_market_id := tr_market_id t, tr_outcome_id := tr_outcome_id t,
               tr_price := tr_price t, tr_quantity := tr_quantity t,
               tr_timestamp := tr_timestamp t, tr_side := tr_side t,
               tr_taker_address := tr_taker_address t,
               tr_maker_address := tr_maker_address t,
               tr_transaction_hash := tr_transaction_hash t,
               tr_raw_data := tr_raw_data t \<rparr>"

definition update_price_snapshot :: "'f price_snapshot \<Rightarrow> 'f price_snapshot \<Rightarrow> 'f price_snapshot" where
  "update_price_snapshot existing p =
     existing\<lparr> ps_implied_probability := ps_implied_probability p,
               ps_bid := ps_bid p, ps_ask := ps_ask p, ps_mid := ps_mid p,
               ps_spread := ps_spread p, ps_volume_24h := ps_volume_24h p,
               ps_liquidity := ps_liquidity p, ps_raw_data := ps_raw_data p \<rparr>"

text \<open>
  One pass of the loop body: \<open>query(...).filter_by(key).first()\<close>, then the update of
  the row found, or \<open>session.add\<close> of a new row.
\<close>

fun upsert_market :: "'f market \<Rightarrow> 'f market list \<Rightarrow> 'f market list" where
  "upsert_market m [] = [m]"
| "upsert_market m (r # rs) =
     (if market_key r = market_key m then update_market r m # rs
      else r # upsert_market m rs)"

fun upsert_trade :: "'f trade \<Rightarrow> 'f trade list \<Rightarrow> 'f trade list" where
  "upsert_trade t [] = [t]"
| "upsert_trade t (r # rs) =
     (if trade_key r = trade_key t then update_trade r t # rs
      else r # upsert_trade t rs)"

fun upsert_price_snapshot :: "'f price_snapshot \<Rightarrow> 'f price_snapshot list \<Rightarrow> 'f price_snapshot list" where
  "upsert_price_snapshot p [] = [p]"
| "upsert_price_snapshot p (r # rs) =
     (if price_snapshot_key r = price_snapshot_key p then update_price_snapshot r p # rs
      else r # upsert_price_snapshot p rs)"

text \<open>The \<open>for\<close> loops, on the session, with the running \<open>count\<close>.\<close>

fun store_markets_loop ::
    "'f market list \<Rightarrow> 'f session \<Rightarrow> nat \<Rightarrow> (pyexn + nat) \<times> 'f session" where
  "store_markets_loop [] s count = (Inr count, s)"
| "store_markets_loop (m # ms) s count =
     (let s' = s\<lparr> working := (working s)\<lparr> markets := upsert_market m (markets (working s)) \<rparr> \<rparr>
      in if market_not_null m then store_markets_loop ms s' (count + 1)
         else (Inl IntegrityError, s'))"

fun store_trades_loop ::
    "'f trade list \<Rightarrow> 'f session \<Rightarrow> nat \<Rightarrow> (pyexn + nat) \<times> 'f session" where
  "store_trades_loop [] s count = (Inr count, s)"
| "store_trades_loop (t # ts) s count =
     (let s' = s\<lparr> working := (working s)\<lparr> trades := upsert_trade t (trades (working s)) \<rparr> \<rparr>
      in if trade_not_null t then store_trades_loop ts s' (count + 1)
         else (Inl IntegrityError, s'))"

fun store_price_snapshots_loop ::
    "'f price_snapshot list \<Rightarrow> 'f session \<Rightarrow> nat \<Rightarrow> (pyexn + nat) \<times> 'f session" where
  "store_price_snapshots_loop [] s count = (Inr count, s)"
| "store_price_snapshots_loop (p # ps) s count =
     (let s' = s\<lparr> working := (working s)\<lparr> price_snapshots :=
                  upsert_price_snapshot p (price_snapshots (working s)) \<rparr> \<rparr>
      in if price_snapshot_not_null p then store_price_snapshots_loop ps s' (count + 1)
         else (Inl IntegrityError, s'))"

text \<open>
  \<open>try: loop; commit; return count / except: rollback; raise / finally: close\<close>.
\<close>

definition store_markets :: "'f market list \<Rightarrow> 'f db \<Rightarrow> (pyexn + nat) \<times> 'f db" where
  "store_markets batch d =
     (case store_markets_loop batch (SessionLocal d) 0 of
        (Inr count, s) \<Rightarrow> (Inr count, session_close (session_commit s))
      | (Inl e, s) \<Rightarrow> (Inl e, session_close (session_rollback s)))"

definition store_trades :: "'f trade list \<Rightarrow> 'f db \<Rightarrow> (pyexn + nat) \<times> 'f db" where
  "store_trades batch d =
     (case store_trades_loop batch (SessionLocal d) 0 of
        (Inr count, s) \<Rightarrow> (Inr count, session_close (session_commit s))
      | (Inl e, s) \<Rightarrow> (Inl e, session_close (session_rollback s)))"

definition store_price_snapshots ::
    "'f price_snapshot list \<Rightarrow> 'f db \<Rightarrow> (pyexn + nat) \<times> 'f db" where
  "store_price_snapshots batch d =
     (case store_price_snapshots_loop batch (SessionLocal d) 0 of
        (Inr count, s) \<Rightarrow> (Inr count, session_close (session_commit s))
      | (Inl e, s) \<Rightarrow> (Inl e, session_close (session_rollback s)))"

definition store_raw ::
    "string \<Rightarrow> string \<Rightarrow> 'f pyval \<Rightarrow> 'f pyval \<Rightarrow> 'f db \<Rightarrow> (pyexn + nat) \<times> 'f db" where
  "store_raw src endpoint response_data metadata d =
     (let s = SessionLocal d;
          request_id = length (raw_api_responses d);
          row = \<lparr> rr_request_id = request_id, rr_source = src, rr_endpoint = endpoint,
                     rr_response_json = response_data, rr_status_code = 200,
                     rr_metadata = metadata \<rparr>;
          s' = s\<lparr> working := (working s)\<lparr> raw_api_responses :=
                      raw_api_responses (working s) @ [row] \<rparr> \<rparr>
      in (Inr request_id, session_close (session_commit s')))"

definition checkpoint_matches :: "string \<Rightarrow> string \<Rightarrow> checkpoint \<Rightarrow> bool" where
  "checkpoint_matches src data_type c = (ck_source c = src \<and> ck_data_type c = data_type)"

definition get_latest_checkpoint ::
    "string \<Rightarrow> string \<Rightarrow> 'f db \<Rightarrow> (pyexn + datetime option) \<times> 'f db" where
  "get_latest_checkpoint src data_type d =
     (case find (checkpoint_matches src data_type) (ingestion_checkpoints d) of
        Some c \<Rightarrow> (Inr (Some (ck_last_sync_timestamp c)), d)
      | None \<Rightarrow> (Inr None, d))"

fun upsert_checkpoint :: "string \<Rightarrow> string \<Rightarrow> datetime \<Rightarrow> checkpoint list \<Rightarrow> checkpoint list" where
  "upsert_checkpoint src data_type ts [] =
     [\<lparr> ck_source = src, ck_data_type = data_type, ck_last_sync_timestamp = ts \<rparr>]"
| "upsert_checkpoint src data_type ts (c # cs) =
     (if checkpoint_matches src data_type c then c\<lparr> ck_last_sync_timestamp := ts \<rparr> # cs
      else c # upsert_checkpoint src data_type ts cs)"

definition update_checkpoint ::
    "string \<Rightarrow> string \<Rightarrow> datetime \<Rightarrow> 'f db \<Rightarrow> (pyexn + unit) \<times> 'f db" where
  "update_checkpoint src data_type ts d =
     (let s = SessionLocal d;
          s' = s\<lparr> working := (working s)\<lparr> ingestion_checkpoints :=
                      upsert_checkpoint src data_type ts (ingestion_checkpoints (working s)) \<rparr> \<rparr>
      in (Inr (), session_close (session_commit s')))"

section \<open>Core interfaces and the ingestion engine\<close>

text \<open>
  \<open>core/interfaces.py\<close>: the engine programs against a market adapter and a storage
  backend. Each is a record of operations on a state of its own (\<open>'n\<close> for the network
  side, \<open>'s\<close> for the store), so that any implementation or stub can be plugged in. A
  page is the dict a fetch returns, read with \<open>.get("data", [])\<close> and
  \<open>.get("nextCursor")\<close>.
\<close>

record 'f page =
  pg_data :: "'f raw list"
  pg_next_cursor :: "string option"

record ('f, 'n) market_adapter =
  source_name :: string
  fetch_markets :: "int option \<Rightarrow> string option \<Rightarrow> 'n \<Rightarrow> (pyexn + 'f page) \<times> 'n"
  fetch_trades ::
    "string option \<Rightarrow> datetime option \<Rightarrow> int option \<Rightarrow> string option \<Rightarrow> 'n \<Rightarrow> (pyexn + 'f page) \<times> 'n"
  fetch_price_snapshots :: "string option \<Rightarrow> datetime option \<Rightarrow> 'n \<Rightarrow> (pyexn + 'f page) \<times> 'n"
  normalize_market :: "'f raw \<Rightarrow> pyexn + 'f market"
  normalize_trade :: "'f raw \<Rightarrow> pyexn + 'f trade"
  normalize_price_snapshot :: "'f raw \<Rightarrow> pyexn + 'f price_snapshot"

record ('f, 's) storage_backend =
  sb_store_raw :: "string \<Rightarrow> string \<Rightarrow> 'f pyval \<Rightarrow> 's \<Rightarrow> (pyexn + nat) \<times> 's"
  sb_store_markets :: "'f market list \<Rightarrow> 's \<Rightarrow> (pyexn + nat) \<times> 's"
  sb_store_trades :: "'f trade list \<Rightarrow> 's \<Rightarrow> (pyexn + nat) \<times> 's"
  sb_store_price_snapshots :: "'f price_snapshot list \<Rightarrow> 's \<Rightarrow> (pyexn + nat) \<times> 's"
  sb_get_latest_checkpoint :: "string \<Rightarrow> string \<Rightarrow> 's \<Rightarrow> (pyexn + datetime option) \<times> 's"
  sb_update_checkpoint :: "string \<Rightarrow> string \<Rightarrow> datetime \<Rightarrow> 's \<Rightarrow> (pyexn + unit) \<times> 's"

definition PostgresStorage :: "('f, 'f db) storage_backend" where
  "PostgresStorage =
     \<lparr> sb_store_raw = (\<lambda>src endpoint response_data. store_raw src endpoint response_data VNone),
       sb_store_markets = store_markets,
       sb_store_trades = store_trades,
       sb_store_price_snapshots = store_price_snapshots,
       sb_get_latest_checkpoint = get_latest_checkpoint,
       sb_update_checkpoint = update_checkpoint \<rparr>"

text \<open>
  The engine's world: the two states and the list of calls made through the two
  interfaces, in order. Logging and metrics of the engine are not part of it.
\<close>

datatype 'f call =
    CFetchMarkets "int option" "string option"
  | CFetchTrades "string option" "datetime option" "int option" "string option"
  | CFetchPriceSnapshots "string option" "datetime option"
  | CStoreRaw string string "'f pyval"
  | CStoreMarkets "'f market list"
  | CStoreTrades "'f trade list"
  | CStorePriceSnapshots "'f price_snapshot list"
  | CGetLatestCheckpoint string string
  | CUpdateCheckpoint string string datetime

record ('f, 'n, 's) world =
  net :: 'n
  storage :: 's
  calls :: "'f call list"

text \<open>
  A step of the engine: from a world to a result or an exception and the world after
  it; \<open>None\<close> when the recursion budget (the first argument of the paginating
  operations) is used up before the operation ends.
\<close>

type_synonym ('a, 'w) prog = "'w \<Rightarrow> ((pyexn + 'a) \<times> 'w) option"

definition preturn :: "'a \<Rightarrow> ('a, 'w) prog" where
  "preturn x w = Some (Inr x, w)"

definition praise :: "pyexn \<Rightarrow> ('a, 'w) prog" where
  "praise e w = Some (Inl e, w)"

definition pbind :: "('a, 'w) prog \<Rightarrow> ('a \<Rightarrow> ('b, 'w) prog) \<Rightarrow> ('b, 'w) prog" where
  "pbind m f w =
     (case m w of
        None \<Rightarrow> None
      | Some (Inl e, w') \<Rightarrow> Some (Inl e, w')
      | Some (Inr x, w') \<Rightarrow> f x w')"

definition plift :: "pyexn + 'a \<Rightarrow> ('a, 'w) prog" where
  "plift r w = Some (r, w)"

definition call_adapter ::
    "'f call \<Rightarrow> ('n \<Rightarrow> (pyexn + 'a) \<times> 'n) \<Rightarrow> ('a, ('f, 'n, 's) world) prog" where
  "call_adapter c f w =
     (case f (net w) of (r, n') \<Rightarrow> Some (r, w\<lparr> net := n', calls := calls w @ [c] \<rparr>))"

definition call_storage ::
    "'f call \<Rightarrow> ('s \<Rightarrow> (pyexn + 'a) \<times> 's) \<Rightarrow> ('a, ('f, 'n, 's) world) prog" where
  "call_storage c f w =
     (case f (storage w) of (r, s') \<Rightarrow> Some (r, w\<lparr> storage := s', calls := calls w @ [c] \<rparr>))"

text \<open>A list comprehension whose body may raise stops at the first exception.\<close>

fun map_exn :: "('a \<Rightarrow> pyexn + 'b) \<Rightarrow> 'a list \<Rightarrow> pyexn + 'b list" where
  "map_exn f [] = Inr []"
| "map_exn f (x # xs) =
     (case f x of
        Inl e \<Rightarrow> Inl e
      | Inr y \<Rightarrow> (case map_exn f xs of Inl e \<Rightarrow> Inl e | Inr ys \<Rightarrow> Inr (y # ys)))"

text \<open>
  The builtin \<open>max\<close> over an iterable of datetimes: ValueError on an empty one, else the
  first greatest element.
\<close>

definition py_max :: "datetime list \<Rightarrow> pyexn + datetime" where
  "py_max xs =
     (case xs of
        [] \<Rightarrow> Inl ValueError
      | x # rest \<Rightarrow> Inr (foldl (\<lambda>m y. if dt_less m y then y else m) x rest))"

text \<open>The archived payload \<open>{"data": raw, "cursor": cursor}\<close> (no cursor key for snapshots).\<close>

definition cursor_val :: "string option \<Rightarrow> 'f pyval" where
  "cursor_val c = (case c of None \<Rightarrow> VNone | Some x \<Rightarrow> VStr x)"

definition raw_payload :: "'f raw list \<Rightarrow> string option \<Rightarrow> 'f pyval" where
  "raw_payload raws cursor = VDict [(''data'', VList (map VDict raws)), (''cursor'', cursor_val cursor)]"

definition raw_payload_snapshots :: "'f raw list \<Rightarrow> 'f pyval" where
  "raw_payload_snapshots raws = VDict [(''data'', VList (map VDict raws))]"

text \<open>\<open>next_cursor and (limit is None or len(raw) == limit)\<close>.\<close>

definition more_pages :: "string option \<Rightarrow> int option \<Rightarrow> 'a list \<Rightarrow> bool" where
  "more_pages next_cursor limit raws =
     (next_cursor \<noteq> None \<and> next_cursor \<noteq> Some [] \<and>
      (limit = None \<or> limit = Some (int (length raws))))"

text \<open>
  \<open>IngestionEngine.ingest_markets\<close>, \<open>ingest_trades\<close> and \<open>ingest_price_snapshots\<close> of
  \<open>core/ingestion.py\<close>. The \<open>except\<close> clause of each logs and re-raises, so an exception
  of any step is the result of the operation. The checkpoint step is
  \<open>if normalized: latest = max(x["timestamp"] for x in normalized if x.get("timestamp"))\<close>
  followed by \<open>if latest: update_checkpoint(...)\<close>; a datetime is always true, so the
  second test never fails once \<open>max\<close> has returned.
\<close>

fun ingest_markets ::
    "nat \<Rightarrow> ('f, 'n) market_adapter \<Rightarrow> ('f, 's) storage_backend \<Rightarrow> int option \<Rightarrow> string option \<Rightarrow>
     bool \<Rightarrow> (nat, ('f, 'n, 's) world) prog" where
  "ingest_markets 0 A S limit cursor store_raw_flag = (\<lambda>w. None)"
| "ingest_markets (Suc budget) A S limit cursor store_raw_flag =
     pbind (call_adapter (CFetchMarkets limit cursor) (fetch_markets A limit cursor)) (\<lambda>response.
       let raw_markets = pg_data response; next_cursor = pg_next_cursor response in
       if raw_markets = [] then preturn 0
       else
         pbind (if store_raw_flag
                then pbind (call_storage
                              (CStoreRaw (source_name A) ''markets'' (raw_payload raw_markets cursor))
                              (sb_store_raw S (source_name A) ''markets'' (raw_payload raw_markets cursor)))
                       (\<lambda>request_id. preturn ())
                else preturn ()) (\<lambda>_.
         pbind (plift (map_exn (normalize_market A) raw_markets)) (\<lambda>normalized.
         pbind (call_storage (CStoreMarkets normalized) (sb_store_markets S normalized)) (\<lambda>count.
           if more_pages next_cursor limit raw_markets
           then pbind (ingest_markets budget A S limit next_cursor store_raw_flag)
                  (\<lambda>additional. preturn (count + additional))
           else preturn count))))"

fun ingest_trades ::
    "nat \<Rightarrow> ('f, 'n) market_adapter \<Rightarrow> ('f, 's) storage_backend \<Rightarrow> string option \<Rightarrow>
     datetime option \<Rightarrow> int option \<Rightarrow> string option \<Rightarrow> bool \<Rightarrow> (nat, ('f, 'n, 's) world) prog" where
  "ingest_trades 0 A S market_id since limit cursor store_raw_flag = (\<lambda>w. None)"
| "ingest_trades (Suc budget) A S market_id since limit cursor store_raw_flag =
     pbind (if since = None
            then call_storage (CGetLatestCheckpoint (source_name A) ''trades'')
                   (sb_get_latest_checkpoint S (source_name A) ''trades'')
            else preturn since) (\<lambda>since.
     pbind (call_adapter (CFetchTrades market_id since limit cursor)
              (fetch_trades A market_id since limit cursor)) (\<lambda>response.
       let raw_trades = pg_data response; next_cursor = pg_next_cursor response in
       if raw_trades = [] then preturn 0
       else
         pbind (if store_raw_flag
                then pbind (call_storage
                              (CStoreRaw (source_name A) ''trades'' (raw_payload raw_trades cursor))
                              (sb_store_raw S (source_name A) ''trades'' (raw_payload raw_trades cursor)))
                       (\<lambda>request_id. preturn ())
                else preturn ()) (\<lambda>_.
         pbind (plift (map_exn (normalize_trade A) raw_trades)) (\<lambda>normalized.
         pbind (call_storage (CStoreTrades normalized) (sb_store_trades S normalized)) (\<lambda>count.
         pbind (if normalized \<noteq> []
                then pbind (plift (py_max (List.map_filter tr_timestamp normalized)))
                       (\<lambda>latest_timestamp.
                          pbind (call_storage
                                   (CUpdateCheckpoint (source_name A) ''trades'' latest_timestamp)
                                   (sb_update_checkpoint S (source_name A) ''trades'' latest_timestamp))
                            (\<lambda>_. preturn ()))
                else preturn ()) (\<lambda>_.
           if more_pages next_cursor limit raw_trades
           then pbind (ingest_trades budget A S market_id since limit next_cursor store_raw_flag)
                  (\<lambda>additional. preturn (count + additional))
           else preturn count))))))"

definition ingest_price_snapshots ::
    "('f, 'n) market_adapter \<Rightarrow> ('f, 's) storage_backend \<Rightarrow> string option \<Rightarrow> datetime option \<Rightarrow>
     bool \<Rightarrow> (nat, ('f, 'n, 's) world) prog" where
  "ingest_price_snapshots A S market_id since store_raw_flag =
     pbind (call_adapter (CFetchPriceSnapshots market_id since)
              (fetch_price_snapshots A market_id since)) (\<lambda>response.
       let raw_snapshots = pg_data response in
       if raw_snapshots = [] then preturn 0
       else
         pbind (if store_raw_flag
                then pbind (call_storage
                              (CStoreRaw (source_name A) ''price_snapshots'' (raw_payload_snapshots raw_snapshots))
                              (sb_store_raw S (source_name A) ''price_snapshots''
                                 (raw_payload_snapshots raw_snapshots)))
                       (\<lambda>request_id. preturn ())
                else preturn ()) (\<lambda>_.
         pbind (plift (map_exn (normalize_price_snapshot A) raw_snapshots)) (\<lambda>normalized.
         pbind (call_storage (CStorePriceSnapshots normalized) (sb_store_price_snapshots S normalized))
           (\<lambda>count.
         pbind (if normalized \<noteq> []
                then pbind (plift (py_max (List.map_filter ps_timestamp normalized)))
                       (\<lambda>latest_timestamp.
                          pbind (call_storage
                                   (CUpdateCheckpoint (source_name A) ''price_snapshots'' latest_timestamp)
                                   (sb_update_checkpoint S (source_name A) ''price_snapshots''
                                      latest_timestamp))
                            (\<lambda>_. preturn ()))
                else preturn ()) (\<lambda>_.
           preturn count)))))"

section \<open>Observability\<close>

text \<open>
  \<open>core/observability.py\<close>: the counters of \<open>Metrics\<close> and the structured log. A log
  entry keeps the level, the event name and the fields as text; durations are left out.
  \<open>_format_key\<close> receives the tags in key order, which is the order \<open>sorted\<close> gives.
\<close>

record obs =
  counters :: "string \<rightharpoonup> nat"
  log :: "(string \<times> string \<times> (string \<times> string) list) list"

fun join_tags :: "(string \<times> string) list \<Rightarrow> string" where
  "join_tags [] = []"
| "join_tags [(k, v)] = k @ ''='' @ v"
| "join_tags ((k, v) # rest) = k @ ''='' @ v @ '','' @ join_tags rest"

definition format_key :: "string \<Rightarrow> (string \<times> string) list \<Rightarrow> string" where
  "format_key metric tags = (if tags = [] then metric else metric @ ''['' @ join_tags tags @ '']'')"

fun str_nat :: "nat \<Rightarrow> string" where
  "str_nat n = (if n < 10 then [char_of (48 + n)] else str_nat (n div 10) @ [char_of (48 + n mod 10)])"

declare str_nat.simps [simp del]

definition logger :: "string \<Rightarrow> string \<Rightarrow> (string \<times> string) list \<Rightarrow> obs \<Rightarrow> obs" where
  "logger level event flds ob = ob\<lparr> log := log ob @ [(level, event, flds)] \<rparr>"

definition get_counter :: "obs \<Rightarrow> string \<Rightarrow> (string \<times> string) list \<Rightarrow> nat" where
  "get_counter ob metric tags = (case counters ob (format_key metric tags) of None \<Rightarrow> 0 | Some c \<Rightarrow> c)"

definition increment :: "string \<Rightarrow> nat \<Rightarrow> (string \<times> string) list \<Rightarrow> obs \<Rightarrow> obs" where
  "increment metric v tags ob =
     (let key = format_key metric tags;
          total = get_counter ob metric tags + v
      in logger ''info'' ''metric.increment''
           ([(''metric'', metric), (''value'', str_nat v)] @ tags @ [(''total'', str_nat total)])
           (ob\<lparr> counters := (counters ob)(key \<mapsto> total) \<rparr>))"

fun exn_name :: "pyexn \<Rightarrow> string" where
  "exn_name ValueError = ''ValueError''"
| "exn_name TypeError = ''TypeError''"
| "exn_name OverflowError = ''OverflowError''"
| "exn_name IntegrityError = ''IntegrityError''"
| "exn_name TimeoutException = ''TimeoutException''"
| "exn_name NetworkError = ''NetworkError''"
| "exn_name (HTTPStatusError code) = ''HTTPStatusError''"
| "exn_name (RetryError e) = ''RetryError''"
| "exn_name (OtherError name) = name"

section \<open>Market-source client\<close>

text \<open>
  \<open>connectors/polymarket/client.py\<close>. What the transport does on the k-th call of
  \<open>self.client.request\<close> is given from outside: it raises, or it answers with a status,
  a body text and the outcome of decoding the body as JSON. The rate limiter only
  sleeps and is left out, as is the sleep between two attempts.
\<close>

datatype 'f http_outcome =
    Raises pyexn
  | Response nat string "pyexn + 'f pyval"

record client_state =
  sent :: nat
  observe :: obs

definition observing :: "(obs \<Rightarrow> obs) \<Rightarrow> client_state \<Rightarrow> client_state" where
  "observing f st = st\<lparr> observe := f (observe st) \<rparr>"

text \<open>
  The body of \<open>_request\<close>, one attempt: the \<open>try\<close> block with its two handlers, inside
  \<open>log_duration("api.request", method=..., url=...)\<close>, which logs the start and, on an
  exception, logs it, counts it under \<open>api.request.errors\<close> and re-raises.
\<close>

definition request_try ::
    "(nat \<Rightarrow> 'f http_outcome) \<Rightarrow> string \<Rightarrow> client_state \<Rightarrow> (pyexn + 'f pyval) \<times> client_state" where
  "request_try transport method st =
     (let st1 = st\<lparr> sent := sent st + 1 \<rparr> in
      case transport (sent st) of
        Raises e \<Rightarrow>
          (Inl e, observing (increment ''api.requests.error'' 1 [(''error_type'', exn_name e)]) st1)
      | Response status body decoded \<Rightarrow>
          if 200 \<le> status \<and> status < 300 then
            (let st2 = observing (increment ''api.requests.success'' 1 [(''method'', method)]) st1 in
             case decoded of
               Inr v \<Rightarrow> (Inr v, st2)
             | Inl e \<Rightarrow>
                 (Inl e, observing (increment ''api.requests.error'' 1 [(''error_type'', exn_name e)]) st2))
          else
            (Inl (HTTPStatusError status),
             observing (logger ''error'' ''api.request.error''
                          [(''status_code'', str_nat status), (''response_text'', take 500 body)])
               (observing (increment ''api.requests.error'' 1 [(''status'', str_nat status)]) st1)))"

definition request_attempt ::
    "(nat \<Rightarrow> 'f http_outcome) \<Rightarrow> string \<Rightarrow> string \<Rightarrow> client_state \<Rightarrow> (pyexn + 'f pyval) \<times> client_state" where
  "request_attempt transport method url st =
     (let ctx = [(''method'', method), (''url'', url)];
          st0 = observing (logger ''info'' ''api.request.start'' ctx) st in
      case request_try transport method st0 of
        (Inr v, st1) \<Rightarrow> (Inr v, observing (logger ''info'' ''api.request.complete'' ctx) st1)
      | (Inl e, st1) \<Rightarrow>
          (Inl e,
           observing (increment ''api.request.errors'' 1 ctx)
             (observing (logger ''error'' ''api.request.error''
                           ([(''error'', exn_name e), (''error_type'', exn_name e)] @ ctx)) st1)))"

text \<open>
  The decorator \<open>@retry(retry=retry_if_exception_type((TimeoutException, NetworkError)),
  stop=stop_after_attempt(3), wait=...)\<close>: the call is repeated while it raises one of
  the two classes; when the attempt whose number reaches the stop also raises one, the
  retry helper gives up and raises its RetryError, which carries that last exception.
  Any other exception leaves at once, as it is.
\<close>

definition retry_if_exception_type :: "pyexn \<Rightarrow> bool" where
  "retry_if_exception_type e = (e = TimeoutException \<or> e = NetworkError)"

function retry_call ::
    "nat \<Rightarrow> nat \<Rightarrow> (client_state \<Rightarrow> (pyexn + 'a) \<times> client_state) \<Rightarrow> client_state \<Rightarrow>
     (pyexn + 'a) \<times> client_state" where
  "retry_call stop attempt_number f st =
     (case f st of
        (Inr v, st') \<Rightarrow> (Inr v, st')
      | (Inl e, st') \<Rightarrow>
          if retry_if_exception_type e then
            (if stop \<le> attempt_number then (Inl (RetryError e), st')
             else retry_call stop (Suc attempt_number) f st')
          else (Inl e, st'))"
  by pat_completeness auto
termination
  by (relation "measure (\<lambda>(stop, attempt_number, f, st). stop - attempt_number)") auto

declare retry_call.simps [simp del]

definition request ::
    "(nat \<Rightarrow> 'f http_outcome) \<Rightarrow> string \<Rightarrow> string \<Rightarrow> client_state \<Rightarrow> (pyexn + 'f pyval) \<times> client_state" where
  "request transport method url st = retry_call 3 1 (request_attempt transport method url) st"

section \<open>Command-line interface\<close>

text \<open>
  Calendar arithmetic of \<open>datetime\<close>: the day number of a date (\<open>_ymd2ord\<close>),
  \<open>replace(hour=, minute=, second=)\<close>, which keeps the date and the microsecond, and
  \<open>+ timedelta(days=n)\<close>, which raises OverflowError outside years 1 to 9999.
\<close>

definition is_leap :: "int \<Rightarrow> bool" where
  "is_leap y = (y mod 4 = 0 \<and> (y mod 100 \<noteq> 0 \<or> y mod 400 = 0))"

definition days_before_year :: "int \<Rightarrow> int" where
  "days_before_year year = (let y = year - 1 in y * 365 + y div 4 - y div 100 + y div 400)"

definition days_before_month :: "int \<Rightarrow> nat \<Rightarrow> int" where
  "days_before_month year month =
     [0, 0, 31, 59, 90, 120, 151, 181, 212, 243, 273, 304, 334] ! month
       + (if 2 < month \<and> is_leap year then 1 else 0)"

definition ymd2ord :: "int \<Rightarrow> nat \<Rightarrow> nat \<Rightarrow> int" where
  "ymd2ord year month day = days_before_year year + days_before_month year month + int day"

definition mk_datetime :: "int \<Rightarrow> nat \<Rightarrow> nat \<Rightarrow> nat \<Rightarrow> nat \<Rightarrow> nat \<Rightarrow> datetime" where
  "mk_datetime year month day h m s =
     \<lparr> ordinal = ymd2ord year month day, hour = h, minute = m, second = s, microsecond = 0 \<rparr>"

definition replace_hms :: "datetime \<Rightarrow> nat \<Rightarrow> nat \<Rightarrow> nat \<Rightarrow> datetime" where
  "replace_hms d h m s = d\<lparr> hour := h, minute := m, second := s \<rparr>"

definition max_ordinal :: int where
  "max_ordinal = 3652059"

definition add_days :: "datetime \<Rightarrow> int \<Rightarrow> pyexn + datetime" where
  "add_days d n =
     (if ordinal d + n < 1 \<or> max_ordinal < ordinal d + n then Inl OverflowError
      else Inr (d\<lparr> ordinal := ordinal d + n \<rparr>))"

text \<open>
  \<open>cli/commands.py\<close>. What a command does outside itself is a list of events: the
  database round trips of constructing the storage backend, the construction and
  closing of the adapter (which owns the HTTP client and sends nothing by itself), each
  call of an engine operation (with its arguments), and each line printed. The lines
  are kept by kind and arguments; the backfill progress line prints the dates of the
  two datetimes it is given here.
\<close>

datatype message =
    MsgIngested nat string
  | MsgError pyexn
  | MsgInvalidDate
  | MsgStartBeforeEnd
  | MsgBackfilling datetime datetime
  | MsgDayIngested nat
  | MsgBackfillComplete nat
  | MsgPricesNotImplemented

datatype cli_event =
    EvStorageConnect
  | EvStorageExecute string
  | EvStorageCommit
  | EvStorageCreateAll
  | EvAdapterCreate
  | EvAdapterClose
  | EvIngestMarkets "int option" bool
  | EvIngestTrades "string option" "datetime option" "int option" bool
  | EvIngestPriceSnapshots "string option" bool
  | EvEcho message
  | EvEchoErr message

record 'w cli_state =
  events :: "cli_event list"
  engine_world :: 'w

text \<open>
  The environment of a command: whether the database can be reached when the storage
  backend is constructed, and the three operations of the engine built from the
  adapter and the storage.
\<close>

record 'w cli_env =
  storage_fault :: "pyexn option"
  engine_ingest_markets :: "int option \<Rightarrow> bool \<Rightarrow> 'w \<Rightarrow> (pyexn + nat) \<times> 'w"
  engine_ingest_trades ::
    "string option \<Rightarrow> datetime option \<Rightarrow> int option \<Rightarrow> bool \<Rightarrow> 'w \<Rightarrow> (pyexn + nat) \<times> 'w"
  engine_ingest_price_snapshots :: "string option \<Rightarrow> bool \<Rightarrow> 'w \<Rightarrow> (pyexn + nat) \<times> 'w"

definition emit :: "cli_event list \<Rightarrow> 'w cli_state \<Rightarrow> 'w cli_state" where
  "emit evs st = st\<lparr> events := events st @ evs \<rparr>"

text \<open>
  \<open>get_storage\<close> constructs \<open>PostgresStorage(..., create_tables=True)\<close>, whose
  \<open>__init__\<close> connects, executes the schema statement, commits and creates the tables.
\<close>

definition get_storage :: "'w cli_env \<Rightarrow> 'w cli_state \<Rightarrow> (pyexn + unit) \<times> 'w cli_state" where
  "get_storage env st =
     (case storage_fault env of
        Some e \<Rightarrow> (Inl e, emit [EvStorageConnect] st)
      | None \<Rightarrow>
          (Inr (), emit [EvStorageConnect,
                         EvStorageExecute ''CREATE SCHEMA IF NOT EXISTS prediction_markets'',
                         EvStorageCommit, EvStorageCreateAll] st))"

definition get_adapter :: "'w cli_state \<Rightarrow> 'w cli_state" where
  "get_adapter st = emit [EvAdapterCreate] st"

definition call_engine ::
    "cli_event \<Rightarrow> ('w \<Rightarrow> (pyexn + nat) \<times> 'w) \<Rightarrow> 'w cli_state \<Rightarrow> (pyexn + nat) \<times> 'w cli_state" where
  "call_engine ev f st =
     (case f (engine_world st) of
        (r, w') \<Rightarrow> (r, st\<lparr> events := events st @ [ev], engine_world := w' \<rparr>))"

text \<open>
  A command ends with an exit status: 0 when it returns, 1 after \<open>sys.exit(1)\<close>, and 1
  when an exception leaves it uncaught.
\<close>

definition markets_cmd ::
    "'w cli_env \<Rightarrow> int option \<Rightarrow> bool \<Rightarrow> 'w cli_state \<Rightarrow> nat \<times> 'w cli_state" where
  "markets_cmd env limit no_raw st =
     (case get_storage env st of
        (Inl e, st1) \<Rightarrow> (1, st1)
      | (Inr _, st1) \<Rightarrow>
          (case call_engine (EvIngestMarkets limit (\<not> no_raw))
                  (engine_ingest_markets env limit (\<not> no_raw)) (get_adapter st1) of
             (Inr count, st2) \<Rightarrow> (0, emit [EvEcho (MsgIngested count ''markets''), EvAdapterClose] st2)
           | (Inl e, st2) \<Rightarrow> (1, emit [EvEchoErr (MsgError e), EvAdapterClose] st2)))"


definition prices_cmd ::
    "'w cli_env \<Rightarrow> string option \<Rightarrow> bool \<Rightarrow> 'w cli_state \<Rightarrow> nat \<times> 'w cli_state" where
  "prices_cmd env market_id no_raw st =
     (case get_storage env st of
        (Inl e, st1) \<Rightarrow> (1, st1)
      | (Inr _, st1) \<Rightarrow>
          (case call_engine (EvIngestPriceSnapshots market_id (\<not> no_raw))
                  (engine_ingest_price_snapshots env market_id (\<not> no_raw)) (get_adapter st1) of
             (Inr count, st2) \<Rightarrow>
               (0, emit [EvEcho (MsgIngested count ''price snapshots''), EvAdapterClose] st2)
           | (Inl e, st2) \<Rightarrow> (1, emit [EvEchoErr (MsgError e), EvAdapterClose] st2)))"

text \<open>The \<open>while current < end_dt\<close> loop of \<open>backfill\<close>.\<close>

definition day_end :: "datetime \<Rightarrow> datetime \<Rightarrow> datetime" where
  "day_end end_dt current =
     (let next_day = replace_hms current 23 59 59
      in if dt_less end_dt next_day then end_dt else next_day)"

function backfill_loop ::
    "'w cli_env \<Rightarrow> string option \<Rightarrow> bool \<Rightarrow> datetime \<Rightarrow> datetime \<Rightarrow> nat \<Rightarrow> 'w cli_state \<Rightarrow>
     (pyexn + nat) \<times> 'w cli_state" where
  "backfill_loop env market_id no_raw end_dt current total_count st =
     (if dt_less current end_dt then
        (let next_day = day_end end_dt current;
             st1 = emit [EvEcho (MsgBackfilling current next_day)] st
         in case call_engine (EvIngestTrades market_id (Some current) None (\<not> no_raw))
                   (engine_ingest_trades env market_id (Some current) None (\<not> no_raw)) st1 of
              (Inl e, st2) \<Rightarrow> (Inl e, st2)
            | (Inr count, st2) \<Rightarrow>
                (case add_days (replace_hms next_day 0 0 0) 1 of
                   Inl e \<Rightarrow> (Inl e, emit [EvEcho (MsgDayIngested count)] st2)
                 | Inr current' \<Rightarrow>
                     backfill_loop env market_id no_raw end_dt current' (total_count + count)
                       (emit [EvEcho (MsgDayIngested count)] st2)))
      else (Inr total_count, st))"
  by pat_completeness auto
termination
proof (relation "measure (\<lambda>(env, market_id, no_raw, end_dt, current, total_count, st).
                   nat (ordinal end_dt + 1 - ordinal current))", goal_cases)
  case 1
  show ?case by simp
next
  case (2 env market_id no_raw end_dt current total_count st next_day st1 r st2 count current')
  have le: "ordinal current \<le> ordinal end_dt"
    using 2 by (auto simp: dt_less_def)
  have "ordinal current \<le> ordinal next_day"
    using le 2 by (simp add: day_end_def replace_hms_def Let_def)
  moreover have "ordinal current' = ordinal next_day + 1"
    using 2 by (auto simp: add_days_def replace_hms_def split: if_splits)
  ultimately show ?case
    using le by simp
qed

declare backfill_loop.simps [simp del]

datatype data_type = Trades | Prices

definition backfill ::
    "'w cli_env \<Rightarrow> 'f pylib \<Rightarrow> string \<Rightarrow> string \<Rightarrow> data_type \<Rightarrow> string option \<Rightarrow> bool \<Rightarrow>
     'w cli_state \<Rightarrow> nat \<times> 'w cli_state" where
  "backfill env L start_text end_text dtype market_id no_raw st =
     (case get_storage env st of
        (Inl e, st1) \<Rightarrow> (1, st1)
      | (Inr _, st1) \<Rightarrow>
          (let st2 = get_adapter st1 in
           case ebind (parse_date L start_text) (\<lambda>start_dt.
                ebind (parse_date L end_text) (\<lambda>end_dt. Inr (start_dt, end_dt))) of
             Inl ValueError \<Rightarrow> (1, emit [EvEchoErr MsgInvalidDate] st2)
           | Inl e \<Rightarrow> (1, st2)
           | Inr (start_dt, end_dt) \<Rightarrow>
               if \<not> dt_less start_dt end_dt
               then (1, emit [EvEchoErr MsgStartBeforeEnd] st2)
               else
                 (case dtype of
                    Trades \<Rightarrow>
                      (case backfill_loop env market_id no_raw end_dt start_dt 0 st2 of
                         (Inr total_count, st3) \<Rightarrow>
                           (0, emit [EvEcho (MsgBackfillComplete total_count), EvAdapterClose] st3)
                       | (Inl e, st3) \<Rightarrow> (1, emit [EvEchoErr (MsgError e), EvAdapterClose] st3))
                  | Prices \<Rightarrow> (1, emit [EvEcho MsgPricesNotImplemented, EvAdapterClose] st2))))"



section \<open>Vocabulary of the properties\<close>

text \<open>The rows of a table under one natural key, and the table a whole batch leaves.\<close>

definition market_rows :: "string \<times> string \<Rightarrow> 'f market list \<Rightarrow> 'f market list" where
  "market_rows k tbl = filter (\<lambda>r. market_key r = k) tbl"




definition empty_db :: "'f db" where
  "empty_db = \<lparr> raw_api_responses = [], markets = [], trades = [], price_snapshots = [],
                ingestion_checkpoints = [] \<rparr>"


fun windows :: "cli_event list \<Rightarrow> (datetime \<times> datetime) list" where
  "windows [] = []"
| "windows (EvEcho (MsgBackfilling a b) # evs) = (a, b) # windows evs"
| "windows (ev # evs) = windows evs"

text \<open>
  One iteration of the backfill loop as the three events it leaves, and the chain of
  iterations from a cursor: each starts at the cursor, ends at 23:59:59 of the cursor's
  day or at the overall end if that is earlier, and hands on midnight of the day after
  the day of its end.
\<close>

fun day_events :: "string option \<Rightarrow> bool \<Rightarrow> datetime \<times> datetime \<times> nat \<Rightarrow> cli_event list" where
  "day_events market_id no_raw (current, next_day, count) =
     [EvEcho (MsgBackfilling current next_day),
      EvIngestTrades market_id (Some current) None (\<not> no_raw),
      EvEcho (MsgDayIngested count)]"

fun day_chain :: "datetime \<Rightarrow> datetime \<Rightarrow> (datetime \<times> datetime \<times> nat) list \<Rightarrow> bool" where
  "day_chain end_dt cursor [] = (\<not> dt_less cursor end_dt)"
| "day_chain end_dt cursor ((current, next_day, count) # rest) =
     (current = cursor \<and> dt_less cursor end_dt \<and>
      next_day = (if dt_less end_dt (cursor\<lparr> hour := 23, minute := 59, second := 59 \<rparr>) then end_dt
                  else cursor\<lparr> hour := 23, minute := 59, second := 59 \<rparr>) \<and>
      ordinal next_day < max_ordinal \<and> 0 \<le> ordinal next_day \<and>
      day_chain end_dt (next_day\<lparr> ordinal := ordinal next_day + 1, hour := 0, minute := 0, second := 0 \<rparr>) rest)"

text \<open>What one attempt of the client returns, given what the transport does.\<close>

definition attempt_outcome :: "'f http_outcome \<Rightarrow> pyexn + 'f pyval" where
  "attempt_outcome out =
     (case out of
        Raises e \<Rightarrow> Inl e
      | Response status body decoded \<Rightarrow>
          if 200 \<le> status \<and> status < 300 then decoded else Inl (HTTPStatusError status))"

text \<open>
  What a rejected invocation leaves behind: exit status 1, the earlier events kept, no
  call into the engine and an unchanged engine world; and, of the database, exactly the
  round trips of constructing the storage backend.
\<close>

definition storage_init_calls :: "cli_event list" where
  "storage_init_calls =
     [EvStorageConnect, EvStorageExecute ''CREATE SCHEMA IF NOT EXISTS prediction_markets'',
      EvStorageCommit, EvStorageCreateAll]"



definition day_count :: "datetime \<times> datetime \<times> nat \<Rightarrow> nat" where
  "day_count d = snd (snd d)"

section \<open>Instances for running the model\<close>

text \<open>
  A library instance for concrete payloads: rationals with exact arithmetic stand in
  for the floats, and the two text parsers are tables on the texts used below.
\<close>

definition exact_lib :: "rat pylib" where
  "exact_lib =
     \<lparr> float_of_int = of_int,
       float_of_str = map_of [(''0.64'', 16 / 25), (''0.66'', 33 / 50), (''0.5'', 1 / 2), (''0.65'', 13 / 20)],
       fadd = (+), fsub = (-), fdiv = (/), fzero = 0, ftwo = 2,
       repr_val = (\<lambda>v. []),
       parse_date = (\<lambda>s. case map_of [(''2024-01-01'', mk_datetime 2024 1 1 0 0 0),
                                        (''2024-01-03'', mk_datetime 2024 1 3 0 0 0),
                                        (''2024-01-15T10:30:00'', mk_datetime 2024 1 15 10 30 0)] s of
                            Some d \<Rightarrow> Inr d
                          | None \<Rightarrow> Inl ValueError),
       utcnow = mk_datetime 2024 6 1 12 0 0 \<rparr>"

text \<open>
  An adapter stub that hands out a given list of pages, one per fetch, and normalizes
  with the schema functions under the source name of the Polymarket adapter. A storage
  stub that accepts every batch and keeps only the checkpoint.
\<close>

definition next_page :: "'f page list \<Rightarrow> (pyexn + 'f page) \<times> 'f page list" where
  "next_page pages =
     (case pages of
        [] \<Rightarrow> (Inr \<lparr> pg_data = [], pg_next_cursor = None \<rparr>, [])
      | p # rest \<Rightarrow> (Inr p, rest))"

definition paged_adapter :: "'f pylib \<Rightarrow> ('f, 'f page list) market_adapter" where
  "paged_adapter L =
     \<lparr> source_name = ''polymarket'',
       fetch_markets = (\<lambda>limit cursor. next_page),
       fetch_trades = (\<lambda>market_id since limit cursor. next_page),
       fetch_price_snapshots = (\<lambda>market_id since. next_page),
       normalize_market = (\<lambda>raw. normalize_market_from_raw L raw ''polymarket''),
       normalize_trade = (\<lambda>raw. normalize_trade_from_raw L raw ''polymarket''),
       normalize_price_snapshot = (\<lambda>raw. normalize_price_snapshot_from_raw L raw ''polymarket'') \<rparr>"

definition accepting_storage :: "('f, datetime option) storage_backend" where
  "accepting_storage =
     \<lparr> sb_store_raw = (\<lambda>src endpoint response_data s. (Inr 0, s)),
       sb_store_markets = (\<lambda>batch s. (Inr (length batch), s)),
       sb_store_trades = (\<lambda>batch s. (Inr (length batch), s)),
       sb_store_price_snapshots = (\<lambda>batch s. (Inr (length batch), s)),
       sb_get_latest_checkpoint = (\<lambda>src data_type s. (Inr s, s)),
       sb_update_checkpoint = (\<lambda>src data_type ts s. (Inr (), Some ts)) \<rparr>"

text \<open>An engine stub for the commands: every call stores seven records and is counted.\<close>

definition counting_env :: "nat cli_env" where
  "counting_env =
     \<lparr> storage_fault = None,
       engine_ingest_markets = (\<lambda>limit store w. (Inr 7, Suc w)),
       engine_ingest_trades = (\<lambda>market_id since limit store w. (Inr 7, Suc w)),
       engine_ingest_price_snapshots = (\<lambda>market_id store w. (Inr 7, Suc w)) \<rparr>"

definition cli_start :: "nat cli_state" where
  "cli_start = \<lparr> events = [], engine_world = 0 \<rparr>"

definition client_start :: client_state where
  "client_start = \<lparr> sent = 0, observe = \<lparr> counters = Map.empty, log = [] \<rparr> \<rparr>"

text \<open>Payloads and records of the examples.\<close>

definition snapshot_payload :: "rat raw" where
  "snapshot_payload =
     [(''marketId'', VStr ''market-123''), (''outcomeId'', VStr ''YES''),
      (''bid'', VStr ''0.64''), (''ask'', VStr ''0.66'')]"

definition snapshot_payload_mid :: "rat raw" where
  "snapshot_payload_mid = (''mid'', VStr ''0.5'') # snapshot_payload"

definition trade_payload :: "rat raw" where
  "trade_payload =
     [(''id'', VStr ''trade-456''), (''marketId'', VStr ''market-123''),
      (''outcomeId'', VStr ''YES''), (''price'', VStr ''0.65''), (''side'', VStr ''buy'')]"

definition untimed_trade :: "rat trade" where
  "untimed_trade =
     \<lparr> tr_trade_id = ''trade-456'', tr_source = ''polymarket'', tr_market_id = ''market-123'',
       tr_outcome_id = ''YES'', tr_price = Some (13 / 20), tr_quantity = Some 0,
       tr_timestamp = None, tr_side = VStr ''buy'', tr_taker_address = VNone,
       tr_maker_address = VNone, tr_transaction_hash = VNone, tr_raw_data = trade_payload \<rparr>"








definition snapshot_record :: "rat price_snapshot" where
  "snapshot_record =
     \<lparr> ps_market_id = ''market-123'', ps_source = ''polymarket'', ps_outcome_id = ''YES'',
       ps_timestamp = Some (mk_datetime 2024 6 1 12 0 0), ps_implied_probability = Some 0,
       ps_bid = Some (16 / 25), ps_ask = Some (33 / 50), ps_mid = Some (13 / 20),
       ps_spread = Some (1 / 50), ps_volume_24h = None, ps_liquidity = None,
       ps_raw_data = snapshot_payload \<rparr>"

definition snapshot_record_mid :: "rat price_snapshot" where
  "snapshot_record_mid = snapshot_record\<lparr> ps_mid := Some (1 / 2), ps_raw_data := snapshot_payload_mid \<rparr>"





text \<open>A world in which the adapter stub holds one page with the timestamp-less trade.\<close>

definition untimed_page_world :: "(rat, rat page list, datetime option) world" where
  "untimed_page_world =
     \<lparr> net = [\<lparr> pg_data = [trade_payload], pg_next_cursor = None \<rparr>], storage = None, calls = [] \<rparr>"

definition untimed_page_world_db :: "(rat, rat page list, rat db) world" where
  "untimed_page_world_db =
     \<lparr> net = [\<lparr> pg_data = [trade_payload], pg_next_cursor = None \<rparr>], storage = empty_db, calls = [] \<rparr>"

text \<open>A transport that never connects, and one that always answers 404.\<close>

definition failing_transport :: "nat \<Rightarrow> rat http_outcome" where
  "failing_transport k = Raises NetworkError"

definition not_found_transport :: "nat \<Rightarrow> rat http_outcome" where
  "not_found_transport k = Response 404 ''not found'' (Inl ValueError)"

text \<open>
  The state in which the backfill loop starts after the storage backend and the adapter
  have been constructed, and the state two days of backfilling leave.
\<close>

definition cli_ready :: "nat cli_state" where
  "cli_ready = \<lparr> events = storage_init_calls @ [EvAdapterCreate], engine_world = 0 \<rparr>"

definition cli_backfilled :: "nat cli_state" where
  "cli_backfilled =
     \<lparr> events = storage_init_calls @ [EvAdapterCreate]
         @ day_events None False (mk_datetime 2024 1 1 0 0 0, mk_datetime 2024 1 1 23 59 59, 7)
         @ day_events None False (mk_datetime 2024 1 2 0 0 0, mk_datetime 2024 1 2 23 59 59, 7),
       engine_world = 2 \<rparr>"

section \<open>Properties of the normalization schemas\<close>

lemma ebind_InrE:
  assumes "ebind m f = Inr y"
  obtains x where "m = Inr x" and "f x = Inr y"
  using assms by (cases m) (simp_all add: ebind_def)

lemmas eval_norm = normalize_trade_from_raw_def normalize_market_from_raw_def
  normalize_price_snapshot_from_raw_def ebind_def parse_float_def parse_datetime_def
  py_float_def py_str_def dict_get_def dict_get_default_def exact_lib_def

text \<open>When the two parsing helpers raise, and what they return otherwise.\<close>

lemma parse_float_raises:
  "parse_float L v d = Inl e \<Longrightarrow> e = OverflowError \<and> (\<exists>i. v = VInt i \<and> float_limit \<le> \<bar>i\<bar>)"
  by (auto simp: parse_float_def py_float_def
           split: pyval.splits sum.splits pyexn.splits if_splits option.splits)

lemma parse_float_returns:
  "(\<And>i. v = VInt i \<Longrightarrow> \<bar>i\<bar> < float_limit) \<Longrightarrow> \<exists>r. parse_float L v d = Inr r"
  by (cases "parse_float L v d") (auto dest!: parse_float_raises)

lemma parse_float_absent: "parse_float L VNone d = Inr d"
  by (simp add: parse_float_def)

lemma parse_float_unparsable:
  "v \<noteq> VNone \<Longrightarrow> py_float L v = Inl ValueError \<or> py_float L v = Inl TypeError \<Longrightarrow>
     parse_float L v d = Inr d"
  by (auto simp: parse_float_def split: pyval.splits)

lemma parse_float_value:
  "v \<noteq> VNone \<Longrightarrow> py_float L v = Inr x \<Longrightarrow> parse_float L v d = Inr (Some x)"
  by (auto simp: parse_float_def split: pyval.splits)

lemma parse_datetime_raises:
  "parse_datetime L v = Inl e \<Longrightarrow>
     e \<noteq> ValueError \<and> e \<noteq> TypeError \<and> (\<exists>s. v = VStr s \<and> parse_date L s = Inl e)"
  by (auto simp: parse_datetime_def split: pyval.splits sum.splits pyexn.splits)

lemma parse_datetime_unparsable:
  "parse_date L s = Inl ValueError \<Longrightarrow> parse_datetime L (VStr s) = Inr None"
  by (simp add: parse_datetime_def)

lemma float_limit_le: "float_limit \<le> \<bar>10 ^ 400\<bar>"
  by (simp add: float_limit_def)

text \<open>
  Outside the overflow case the normalizers return, and an absent field gets its default.
\<close>

lemma parse_float_get_returns:
  assumes "\<And>k i. map_of raw k = Some (VInt i) \<Longrightarrow> \<bar>i\<bar> < float_limit"
  shows "\<exists>r. parse_float L (dict_get raw k) d = Inr r"
proof (rule parse_float_returns)
  fix i assume "dict_get raw k = VInt i"
  then have "map_of raw k = Some (VInt i)"
    by (auto simp: dict_get_def split: option.splits)
  then show "\<bar>i\<bar> < float_limit" by (rule assms)
qed

lemma parse_datetime_returns:
  assumes "\<And>s e. parse_date L s = Inl e \<Longrightarrow> e = ValueError \<or> e = TypeError"
  shows "\<exists>r. parse_datetime L v = Inr r"
proof (cases "parse_datetime L v")
  case (Inl e)
  then show ?thesis using parse_datetime_raises[of L v e] assms by blast
next
  case (Inr r)
  then show ?thesis by blast
qed

lemma normalize_trade_returns:
  assumes num: "\<And>k i. map_of raw k = Some (VInt i) \<Longrightarrow> \<bar>i\<bar> < float_limit"
    and dat: "\<And>s e. parse_date L s = Inl e \<Longrightarrow> e = ValueError \<or> e = TypeError"
  shows "\<exists>t. normalize_trade_from_raw L raw src = Inr t"
proof -
  obtain p where p: "parse_float L (dict_get raw ''price'') (Some (fzero L)) = Inr p"
    using parse_float_get_returns[of raw L] num by blast
  obtain q where q: "parse_float L (dict_get raw ''quantity'') (Some (fzero L)) = Inr q"
    using parse_float_get_returns[of raw L] num by blast
  obtain ts where ts: "parse_datetime L (dict_get raw ''timestamp'') = Inr ts"
    using parse_datetime_returns[of L] dat by blast
  show ?thesis
    by (simp add: normalize_trade_from_raw_def ebind_def p q ts Let_def)
qed

lemma normalize_market_returns:
  assumes num: "\<And>k i. map_of raw k = Some (VInt i) \<Longrightarrow> \<bar>i\<bar> < float_limit"
    and dat: "\<And>s e. parse_date L s = Inl e \<Longrightarrow> e = ValueError \<or> e = TypeError"
  shows "\<exists>m. normalize_market_from_raw L raw src = Inr m"
proof -
  obtain e where e: "parse_datetime L (dict_get raw ''endDate'') = Inr e"
    using parse_datetime_returns[of L] dat by blast
  obtain l where l: "parse_float L (dict_get raw ''liquidity'') None = Inr l"
    using parse_float_get_returns[of raw L] num by blast
  obtain v where v: "parse_float L (dict_get raw ''volume24h'') None = Inr v"
    using parse_float_get_returns[of raw L] num by blast
  obtain c where c: "parse_datetime L (dict_get raw ''createdAt'') = Inr c"
    using parse_datetime_returns[of L] dat by blast
  obtain u where u: "parse_datetime L (dict_get raw ''updatedAt'') = Inr u"
    using parse_datetime_returns[of L] dat by blast
  show ?thesis
    by (simp add: normalize_market_from_raw_def ebind_def e l v c u Let_def)
qed

lemma normalize_price_snapshot_returns:
  assumes num: "\<And>k i. map_of raw k = Some (VInt i) \<Longrightarrow> \<bar>i\<bar> < float_limit"
    and dat: "\<And>s e. parse_date L s = Inl e \<Longrightarrow> e = ValueError \<or> e = TypeError"
  shows "\<exists>p. normalize_price_snapshot_from_raw L raw src = Inr p"
proof -
  obtain ts where ts: "parse_datetime L (dict_get raw ''timestamp'') = Inr ts"
    using parse_datetime_returns[of L] dat by blast
  obtain ip where ip: "parse_float L (dict_get raw ''impliedProbability'') (Some (fzero L)) = Inr ip"
    using parse_float_get_returns[of raw L] num by blast
  obtain b where b: "parse_float L (dict_get raw ''bid'') None = Inr b"
    using parse_float_get_returns[of raw L] num by blast
  obtain a where a: "parse_float L (dict_get raw ''ask'') None = Inr a"
    using parse_float_get_returns[of raw L] num by blast
  obtain m where m: "parse_float L (dict_get raw ''mid'') None = Inr m"
    using parse_float_get_returns[of raw L] num by blast
  obtain s where s: "parse_float L (dict_get raw ''spread'') None = Inr s"
    using parse_float_get_returns[of raw L] num by blast
  obtain v where v: "parse_float L (dict_get raw ''volume24h'') None = Inr v"
    using parse_float_get_returns[of raw L] num by blast
  obtain l where l: "parse_float L (dict_get raw ''liquidity'') None = Inr l"
    using parse_float_get_returns[of raw L] num by blast
  show ?thesis
    by (simp add: normalize_price_snapshot_from_raw_def ebind_def ts ip b a m s v l Let_def)
qed

lemma parse_float_default_some:
  "parse_float L v (Some d) = Inr r \<Longrightarrow> \<exists>y. r = Some y"
  by (auto simp: parse_float_def split: pyval.splits sum.splits pyexn.splits)

lemma normalize_trade_defaults:
  assumes "normalize_trade_from_raw L raw src = Inr t"
  shows "parse_float L (dict_get raw ''price'') (Some (fzero L)) = Inr (tr_price t)"
    and "parse_float L (dict_get raw ''quantity'') (Some (fzero L)) = Inr (tr_quantity t)"
    and "parse_datetime L (dict_get raw ''timestamp'') = Inr (tr_timestamp t)"
    and "map_of raw ''price'' = None \<Longrightarrow> tr_price t = Some (fzero L)"
    and "map_of raw ''quantity'' = None \<Longrightarrow> tr_quantity t = Some (fzero L)"
    and "map_of raw ''timestamp'' = None \<Longrightarrow> tr_timestamp t = None"
    and "tr_price t \<noteq> None" and "tr_quantity t \<noteq> None"
proof -
  from assms obtain p q ts where
    f: "parse_float L (dict_get raw ''price'') (Some (fzero L)) = Inr p"
       "parse_float L (dict_get raw ''quantity'') (Some (fzero L)) = Inr q"
       "parse_datetime L (dict_get raw ''timestamp'') = Inr ts"
    and t: "tr_price t = p" "tr_quantity t = q" "tr_timestamp t = ts"
    unfolding normalize_trade_from_raw_def Let_def
    by (elim ebind_InrE) auto
  show "parse_float L (dict_get raw ''price'') (Some (fzero L)) = Inr (tr_price t)"
    and "parse_float L (dict_get raw ''quantity'') (Some (fzero L)) = Inr (tr_quantity t)"
    and "parse_datetime L (dict_get raw ''timestamp'') = Inr (tr_timestamp t)"
    using f t by simp_all
  show "map_of raw ''price'' = None \<Longrightarrow> tr_price t = Some (fzero L)"
    using f(1) t(1) by (simp add: dict_get_def parse_float_def)
  show "map_of raw ''quantity'' = None \<Longrightarrow> tr_quantity t = Some (fzero L)"
    using f(2) t(2) by (simp add: dict_get_def parse_float_def)
  show "map_of raw ''timestamp'' = None \<Longrightarrow> tr_timestamp t = None"
    using f(3) t(3) by (simp add: dict_get_def parse_datetime_def)
  show "tr_price t \<noteq> None"
    using parse_float_default_some[OF f(1)] t(1) by auto
  show "tr_quantity t \<noteq> None"
    using parse_float_default_some[OF f(2)] t(2) by auto
qed

lemma normalize_price_snapshot_defaults:
  assumes "normalize_price_snapshot_from_raw L raw src = Inr s"
  shows "parse_float L (dict_get raw ''impliedProbability'') (Some (fzero L))
           = Inr (ps_implied_probability s)"
    and "map_of raw ''impliedProbability'' = None \<Longrightarrow> ps_implied_probability s = Some (fzero L)"
    and "map_of raw ''timestamp'' = None \<Longrightarrow> ps_timestamp s = Some (utcnow L)"
    and "\<And>t. parse_date L t = Inl ValueError \<Longrightarrow> map_of raw ''timestamp'' = Some (VStr t) \<Longrightarrow>
           ps_timestamp s = Some (utcnow L)"
    and "\<And>t d. parse_date L t = Inr d \<Longrightarrow> map_of raw ''timestamp'' = Some (VStr t) \<Longrightarrow>
           ps_timestamp s = Some d"
    and "ps_timestamp s \<noteq> None"
proof -
  from assms obtain parsed ip where
    f: "parse_datetime L (dict_get raw ''timestamp'') = Inr parsed"
       "parse_float L (dict_get raw ''impliedProbability'') (Some (fzero L)) = Inr ip"
    and s: "ps_timestamp s = Some (case parsed of None \<Rightarrow> utcnow L | Some d \<Rightarrow> d)"
           "ps_implied_probability s = ip"
    unfolding normalize_price_snapshot_from_raw_def Let_def
    by (elim ebind_InrE) auto
  show "parse_float L (dict_get raw ''impliedProbability'') (Some (fzero L))
           = Inr (ps_implied_probability s)"
    using f s by simp
  show "map_of raw ''impliedProbability'' = None \<Longrightarrow> ps_implied_probability s = Some (fzero L)"
    using f(2) s(2) by (simp add: dict_get_def parse_float_def)
  show "map_of raw ''timestamp'' = None \<Longrightarrow> ps_timestamp s = Some (utcnow L)"
    using f(1) s(1) by (auto simp: dict_get_def parse_datetime_def)
  show "\<And>t. parse_date L t = Inl ValueError \<Longrightarrow> map_of raw ''timestamp'' = Some (VStr t) \<Longrightarrow>
           ps_timestamp s = Some (utcnow L)"
    using f(1) s(1) by (auto simp: dict_get_def parse_datetime_def)
  show "\<And>t d. parse_date L t = Inr d \<Longrightarrow> map_of raw ''timestamp'' = Some (VStr t) \<Longrightarrow>
           ps_timestamp s = Some d"
    using f(1) s(1) by (auto simp: dict_get_def parse_datetime_def)
  show "ps_timestamp s \<noteq> None"
    using s(1) by simp
qed

text \<open>
  Claim C4. The normalizers are meant never to raise: an unparsable or absent numeric
  field gives the default, an unparsable or absent timestamp gives no value. The code
  breaks this on an integer too large for a float: \<open>float\<close> raises OverflowError, which
  the handler of \<open>_parse_float\<close> does not catch, so \<open>normalize_trade\<close> raises on the
  payload \<open>{"id": "t1", "price": 10**400}\<close> instead of taking the price as 0.0.
\<close>

theorem normalize_trade_overflow:
  "normalize_trade_from_raw L [(''id'', VStr ''t1''), (''price'', VInt (10 ^ 400))] src
     = Inl OverflowError"
  using float_limit_le
  by (simp add: normalize_trade_from_raw_def parse_float_def py_float_def ebind_def
        dict_get_def dict_get_default_def)

lemma normalize_price_snapshot_fields:
  assumes "normalize_price_snapshot_from_raw L raw src = Inr s"
  obtains mid0 spread0 where
    "parse_float L (dict_get raw ''bid'') None = Inr (ps_bid s)"
    "parse_float L (dict_get raw ''ask'') None = Inr (ps_ask s)"
    "parse_float L (dict_get raw ''mid'') None = Inr mid0"
    "parse_float L (dict_get raw ''spread'') None = Inr spread0"
    "ps_mid s = (if mid0 = None \<and> ps_bid s \<noteq> None \<and> ps_ask s \<noteq> None
                 then Some (fdiv L (fadd L (the (ps_bid s)) (the (ps_ask s))) (ftwo L)) else mid0)"
    "ps_spread s = (if spread0 = None \<and> ps_bid s \<noteq> None \<and> ps_ask s \<noteq> None
                    then Some (fsub L (the (ps_ask s)) (the (ps_bid s))) else spread0)"
proof -
  from assms obtain parsed ip bid ask mid0 spread0 vol liq where
    p: "parse_float L (dict_get raw ''bid'') None = Inr bid"
       "parse_float L (dict_get raw ''ask'') None = Inr ask"
       "parse_float L (dict_get raw ''mid'') None = Inr mid0"
       "parse_float L (dict_get raw ''spread'') None = Inr spread0"
    and s: "s = \<lparr> ps_market_id = py_str L (dict_get_default raw ''marketId'' (VStr [])),
                  ps_source = src,
                  ps_outcome_id = py_str L (dict_get_default raw ''outcomeId'' (VStr [])),
                  ps_timestamp = Some (case parsed of None \<Rightarrow> utcnow L | Some d \<Rightarrow> d),
                  ps_implied_probability = ip, ps_bid = bid, ps_ask = ask,
                  ps_mid = (if mid0 = None \<and> bid \<noteq> None \<and> ask \<noteq> None
                            then Some (fdiv L (fadd L (the bid) (the ask)) (ftwo L)) else mid0),
                  ps_spread = (if spread0 = None \<and> bid \<noteq> None \<and> ask \<noteq> None
                               then Some (fsub L (the ask) (the bid)) else spread0),
                  ps_volume_24h = vol, ps_liquidity = liq, ps_raw_data = raw \<rparr>"
    unfolding normalize_price_snapshot_from_raw_def Let_def
    by (elim ebind_InrE) (simp, blast)
  show thesis
    by (rule that[of mid0 spread0]) (simp_all add: p s)
qed

text \<open>
  Claim C5. In a normalized price snapshot, \<open>bid\<close> and \<open>ask\<close> are the parsed payload
  fields; when \<open>mid\<close> is not supplied (or does not parse) and both are present,
  \<open>mid = (bid + ask) / 2\<close>; likewise \<open>spread = ask - bid\<close>; and a supplied \<open>mid\<close> or
  \<open>spread\<close> that parses to a number is kept as it is, whatever bid and ask are. The
  sum, difference and quotient are those of the floats.
\<close>

theorem derived_mid_spread:
  assumes "normalize_price_snapshot_from_raw L raw src = Inr s"
  shows "parse_float L (dict_get raw ''bid'') None = Inr (ps_bid s)
       \<and> parse_float L (dict_get raw ''ask'') None = Inr (ps_ask s)
       \<and> (\<forall>b a. (map_of raw ''mid'' = None \<or> parse_float L (dict_get raw ''mid'') None = Inr None)
                 \<and> ps_bid s = Some b \<and> ps_ask s = Some a
               \<longrightarrow> ps_mid s = Some (fdiv L (fadd L b a) (ftwo L)))
       \<and> (\<forall>b a. (map_of raw ''spread'' = None \<or> parse_float L (dict_get raw ''spread'') None = Inr None)
                 \<and> ps_bid s = Some b \<and> ps_ask s = Some a
               \<longrightarrow> ps_spread s = Some (fsub L a b))
       \<and> (\<forall>v m. map_of raw ''mid'' = Some v \<and> py_float L v = Inr m \<longrightarrow> ps_mid s = Some m)
       \<and> (\<forall>v x. map_of raw ''spread'' = Some v \<and> py_float L v = Inr x \<longrightarrow> ps_spread s = Some x)"
proof -
  from assms obtain mid0 spread0 where
    f: "parse_float L (dict_get raw ''bid'') None = Inr (ps_bid s)"
       "parse_float L (dict_get raw ''ask'') None = Inr (ps_ask s)"
       "parse_float L (dict_get raw ''mid'') None = Inr mid0"
       "parse_float L (dict_get raw ''spread'') None = Inr spread0"
    and m: "ps_mid s = (if mid0 = None \<and> ps_bid s \<noteq> None \<and> ps_ask s \<noteq> None
                 then Some (fdiv L (fadd L (the (ps_bid s)) (the (ps_ask s))) (ftwo L)) else mid0)"
    and sp: "ps_spread s = (if spread0 = None \<and> ps_bid s \<noteq> None \<and> ps_ask s \<noteq> None
                    then Some (fsub L (the (ps_ask s)) (the (ps_bid s))) else spread0)"
    by (rule normalize_price_snapshot_fields)
  have absent: "\<And>k. map_of raw k = None \<Longrightarrow> parse_float L (dict_get raw k) None = Inr None"
    by (simp add: dict_get_def parse_float_def)
  have supplied: "\<And>k v x. map_of raw k = Some v \<Longrightarrow> py_float L v = Inr x \<Longrightarrow>
                    parse_float L (dict_get raw k) None = Inr (Some x)"
    by (auto simp: dict_get_def parse_float_def py_float_def split: pyval.splits)
  have c3: "\<forall>b a. (map_of raw ''mid'' = None \<or> parse_float L (dict_get raw ''mid'') None = Inr None)
                 \<and> ps_bid s = Some b \<and> ps_ask s = Some a
               \<longrightarrow> ps_mid s = Some (fdiv L (fadd L b a) (ftwo L))"
    using f(3) m absent[of "''mid''"] by auto
  have c4: "\<forall>b a. (map_of raw ''spread'' = None \<or> parse_float L (dict_get raw ''spread'') None = Inr None)
                 \<and> ps_bid s = Some b \<and> ps_ask s = Some a
               \<longrightarrow> ps_spread s = Some (fsub L a b)"
    using f(4) sp absent[of "''spread''"] by auto
  have c5: "\<forall>v m. map_of raw ''mid'' = Some v \<and> py_float L v = Inr m \<longrightarrow> ps_mid s = Some m"
    using f(3) m supplied[of "''mid''"] by auto
  have c6: "\<forall>v x. map_of raw ''spread'' = Some v \<and> py_float L v = Inr x \<longrightarrow> ps_spread s = Some x"
    using f(4) sp supplied[of "''spread''"] by auto
  show ?thesis using f(1,2) c3 c4 c5 c6 by blast
qed

lemma snapshot_payload_normalized:
  "normalize_price_snapshot_from_raw exact_lib snapshot_payload ''polymarket'' = Inr snapshot_record"
  by (simp add: eval_norm snapshot_payload_def snapshot_record_def del: not_None_eq)

lemma snapshot_payload_mid_normalized:
  "normalize_price_snapshot_from_raw exact_lib snapshot_payload_mid ''polymarket''
     = Inr snapshot_record_mid"
  by (simp add: eval_norm snapshot_payload_mid_def snapshot_payload_def snapshot_record_mid_def
        snapshot_record_def del: not_None_eq)

theorem derived_mid_spread_witness:
  "normalize_price_snapshot_from_raw exact_lib snapshot_payload ''polymarket'' = Inr snapshot_record
   \<and> ps_mid snapshot_record = Some (fdiv exact_lib (fadd exact_lib (16 / 25) (33 / 50)) (ftwo exact_lib))
   \<and> ps_spread snapshot_record = Some (fsub exact_lib (33 / 50) (16 / 25))
   \<and> normalize_price_snapshot_from_raw exact_lib snapshot_payload_mid ''polymarket''
       = Inr snapshot_record_mid
   \<and> ps_mid snapshot_record_mid = Some (1 / 2)"
proof -
  note a = derived_mid_spread[OF snapshot_payload_normalized]
  note b = derived_mid_spread[OF snapshot_payload_mid_normalized]
  have absent: "map_of snapshot_payload ''mid'' = None" "map_of snapshot_payload ''spread'' = None"
    by (simp_all add: snapshot_payload_def)
  have ba: "ps_bid snapshot_record = Some (16 / 25)" "ps_ask snapshot_record = Some (33 / 50)"
    by (simp_all add: snapshot_record_def)
  have m: "ps_mid snapshot_record
             = Some (fdiv exact_lib (fadd exact_lib (16 / 25) (33 / 50)) (ftwo exact_lib))"
    using a[THEN conjunct2, THEN conjunct2, THEN conjunct1] absent(1) ba by blast
  have sp: "ps_spread snapshot_record = Some (fsub exact_lib (33 / 50) (16 / 25))"
    using a[THEN conjunct2, THEN conjunct2, THEN conjunct2, THEN conjunct1] absent(2) ba by blast
  have sup: "map_of snapshot_payload_mid ''mid'' = Some (VStr ''0.5'')"
            "py_float exact_lib (VStr ''0.5'') = Inr (1 / 2)"
    by (simp_all add: snapshot_payload_mid_def py_float_def exact_lib_def)
  have kept: "ps_mid snapshot_record_mid = Some (1 / 2)"
    using b[THEN conjunct2, THEN conjunct2, THEN conjunct2, THEN conjunct2, THEN conjunct1] sup
    by blast
  show ?thesis
    using snapshot_payload_normalized snapshot_payload_mid_normalized m sp kept by blast
qed

section \<open>Properties of the storage backend\<close>











lemma store_trades_loop_committed:
  "committed (snd (store_trades_loop batch s c)) = committed s"
  by (induction batch arbitrary: s c) (simp_all add: Let_def)

lemma store_trades_loop_fails:
  "\<not> list_all trade_not_null batch \<Longrightarrow> fst (store_trades_loop batch s c) = Inl IntegrityError"
  by (induction batch arbitrary: s c) (simp_all add: Let_def)



lemma store_trades_fails:
  "\<not> list_all trade_not_null batch \<Longrightarrow> store_trades batch d = (Inl IntegrityError, d)"
  using store_trades_loop_fails[of batch "SessionLocal d" 0]
        store_trades_loop_committed[of batch "SessionLocal d" 0]
  by (cases "store_trades_loop batch (SessionLocal d) 0")
     (auto simp: store_trades_def SessionLocal_def session_rollback_def session_close_def)


lemma update_price_snapshot_same_key: "price_snapshot_key r = price_snapshot_key t \<Longrightarrow> update_price_snapshot r t = t"
  by (cases r, cases t) (simp add: update_price_snapshot_def price_snapshot_key_def)







lemma update_market_cols:
  "update_market r t = t\<lparr> mk_market_id := mk_market_id r, mk_source := mk_source r \<rparr>"
  by (cases r, cases t) (simp add: update_market_def)



lemma upsert_market_absent: "market_rows (market_key t) tbl = [] \<Longrightarrow> upsert_market t tbl = tbl @ [t]"
  by (induction tbl) (auto simp: market_rows_def split: if_splits)

lemma upsert_market_present:
  "market_rows (market_key t) front = [] \<Longrightarrow> market_key r = market_key t \<Longrightarrow>
     upsert_market t (front @ r # back) = front @ update_market r t # back"
  by (induction front) (auto simp: market_rows_def split: if_splits)















lemma trade_payload_normalized:
  "normalize_trade_from_raw exact_lib trade_payload ''polymarket'' = Inr untimed_trade"
  by (simp add: eval_norm trade_payload_def untimed_trade_def del: not_None_eq)











section \<open>Properties of the ingestion engine\<close>

lemmas prog_defs = pbind_def preturn_def praise_def plift_def call_adapter_def call_storage_def

text \<open>
  Claim C6. When the fetched page has no data, each of the three operations returns 0
  and the fetch is the last call it makes: nothing is archived, nothing is stored and no
  checkpoint is read or written after it, and the state of the store is untouched. The
  only storage call of such a run is the checkpoint read that \<open>ingest_trades\<close> makes
  before the fetch when it is given no \<open>since\<close>.
\<close>
theorem empty_page_short_circuit:
  "(fetch_markets A limit cursor (net w) = (Inr pm, nm) \<and> pg_data pm = []
      \<longrightarrow> ingest_markets (Suc budget) A S limit cursor flag w
            = Some (Inr 0, w\<lparr> net := nm, calls := calls w @ [CFetchMarkets limit cursor] \<rparr>))
   \<and> (fetch_trades A market_id (Some since) limit cursor (net w) = (Inr pt, nt) \<and> pg_data pt = []
      \<longrightarrow> ingest_trades (Suc budget) A S market_id (Some since) limit cursor flag w
            = Some (Inr 0, w\<lparr> net := nt,
                               calls := calls w @ [CFetchTrades market_id (Some since) limit cursor] \<rparr>))
   \<and> (sb_get_latest_checkpoint S (source_name A) ''trades'' (storage w) = (Inr ck, s1)
       \<and> fetch_trades A market_id ck limit cursor (net w) = (Inr pc, nc) \<and> pg_data pc = []
      \<longrightarrow> ingest_trades (Suc budget) A S market_id None limit cursor flag w
            = Some (Inr 0, w\<lparr> net := nc, storage := s1,
                               calls := calls w @ [CGetLatestCheckpoint (source_name A) ''trades'',
                                                   CFetchTrades market_id ck limit cursor] \<rparr>))
   \<and> (fetch_price_snapshots A market_id since_opt (net w) = (Inr pp, np) \<and> pg_data pp = []
      \<longrightarrow> ingest_price_snapshots A S market_id since_opt flag w
            = Some (Inr 0, w\<lparr> net := np, calls := calls w @ [CFetchPriceSnapshots market_id since_opt] \<rparr>))"
  by (simp add: prog_defs ingest_price_snapshots_def Let_def)

text \<open>The three operations on an adapter stub that has no page left.\<close>
theorem empty_page_short_circuit_witness:
  "ingest_markets (Suc 0) (paged_adapter exact_lib) accepting_storage None None True
      (untimed_page_world\<lparr> net := [] \<rparr>)
     = Some (Inr 0, untimed_page_world\<lparr> net := [], calls := [CFetchMarkets None None] \<rparr>)
   \<and> ingest_trades (Suc 0) (paged_adapter exact_lib) accepting_storage None None None None True
      (untimed_page_world\<lparr> net := [] \<rparr>)
     = Some (Inr 0, untimed_page_world\<lparr> net := [],
               calls := [CGetLatestCheckpoint ''polymarket'' ''trades'', CFetchTrades None None None None] \<rparr>)
   \<and> ingest_price_snapshots (paged_adapter exact_lib) accepting_storage None None True
      (untimed_page_world\<lparr> net := [] \<rparr>)
     = Some (Inr 0, untimed_page_world\<lparr> net := [], calls := [CFetchPriceSnapshots None None] \<rparr>)"
proof -
  let ?A = "paged_adapter exact_lib"
  let ?S = "accepting_storage :: (rat, datetime option) storage_backend"
  let ?w = "untimed_page_world\<lparr> net := [] \<rparr>"
  let ?e = "\<lparr> pg_data = [], pg_next_cursor = None \<rparr> :: rat page"
  note th = empty_page_short_circuit[of ?A None None ?w ?e "[]" 0 ?S True None
              "mk_datetime 2024 1 1 0 0 0" ?e "[]" None None ?e "[]" None ?e "[]"]
  have f: "fetch_markets ?A None None (net ?w) = (Inr ?e, [])"
          "fetch_trades ?A None None None None (net ?w) = (Inr ?e, [])"
          "fetch_price_snapshots ?A None None (net ?w) = (Inr ?e, [])"
          "sb_get_latest_checkpoint ?S (source_name ?A) ''trades'' (storage ?w) = (Inr None, None)"
          "source_name ?A = ''polymarket''"
    by (simp_all add: paged_adapter_def next_page_def accepting_storage_def untimed_page_world_def)
  show ?thesis
    using th f by (simp add: untimed_page_world_def)
qed

text \<open>
  Claim C3. After storing a page of trades the engine advances the checkpoint to the
  greatest timestamp of the page's records, and is to skip the update, without
  raising, when no record has one. On a page whose only trade has no timestamp the
  code calls \<open>max\<close> on an empty sequence: the operation raises ValueError after the batch
  has been stored, and no checkpoint update is made.
\<close>
theorem ingest_trades_without_timestamp:
  "ingest_trades (Suc 0) (paged_adapter exact_lib) accepting_storage None None None None True
      untimed_page_world
     = Some (Inl ValueError,
             untimed_page_world\<lparr> net := [],
               calls := [CGetLatestCheckpoint ''polymarket'' ''trades'',
                         CFetchTrades None None None None,
                         CStoreRaw ''polymarket'' ''trades'' (raw_payload [trade_payload] None),
                         CStoreTrades [untimed_trade]] \<rparr>)"
  by (simp add: prog_defs Let_def paged_adapter_def next_page_def accepting_storage_def
        untimed_page_world_def trade_payload_normalized py_max_def List.map_filter_def
        untimed_trade_def)

lemma ingest_trades_without_timestamp_postgres:
  "ingest_trades (Suc 0) (paged_adapter exact_lib) PostgresStorage None None None None False
      untimed_page_world_db
     = Some (Inl IntegrityError,
             untimed_page_world_db\<lparr> net := [],
               calls := [CGetLatestCheckpoint ''polymarket'' ''trades'',
                         CFetchTrades None None None None,
                         CStoreTrades [untimed_trade]] \<rparr>)"
proof -
  have "store_trades [untimed_trade] (empty_db :: rat db) = (Inl IntegrityError, empty_db)"
    using store_trades_fails[of "[untimed_trade]" empty_db]
    by (simp add: untimed_trade_def trade_not_null_def)
  then show ?thesis
    by (simp add: prog_defs Let_def paged_adapter_def next_page_def PostgresStorage_def
        untimed_page_world_db_def trade_payload_normalized get_latest_checkpoint_def empty_db_def)
qed

text \<open>
  The greatest timestamp, and one page of trades with an explicit \<open>since\<close> and no raw
  archive: the checkpoint is set to the greatest timestamp when there is one.
\<close>

lemma lex_step:
  fixes x y z :: "'a :: linorder"
  assumes "x < y \<or> (x = y \<and> P)" and "y < z \<or> (y = z \<and> Q)" and "P \<Longrightarrow> Q \<Longrightarrow> R"
  shows "x < z \<or> (x = z \<and> R)"
  using assms by auto

lemma lex_neg_step:
  fixes x y z :: "'a :: linorder"
  assumes "\<not> (x < y \<or> (x = y \<and> P))" and "\<not> (y < z \<or> (y = z \<and> Q))"
    and "\<not> P \<Longrightarrow> \<not> Q \<Longrightarrow> \<not> R"
  shows "\<not> (x < z \<or> (x = z \<and> R))"
  using assms by auto

lemma dt_less_trans: "dt_less a b \<Longrightarrow> dt_less b c \<Longrightarrow> dt_less a c"
  unfolding dt_less_def
  by (erule lex_step, assumption)+ simp

lemma dt_not_less_trans: "\<not> dt_less a b \<Longrightarrow> \<not> dt_less b c \<Longrightarrow> \<not> dt_less a c"
  unfolding dt_less_def
  by (erule lex_neg_step, assumption)+ simp

lemma dt_less_irrefl: "\<not> dt_less a a"
  by (simp add: dt_less_def)

lemma foldl_max_greatest:
  "foldl (\<lambda>m y. if dt_less m y then y else m) x rest \<in> set (x # rest)
   \<and> (\<forall>y \<in> set (x # rest). \<not> dt_less (foldl (\<lambda>m y. if dt_less m y then y else m) x rest) y)"
proof (induction rest arbitrary: x)
  case Nil
  show ?case by (simp add: dt_less_irrefl)
next
  case (Cons z zs)
  let ?f = "\<lambda>m y. if dt_less m y then y else m"
  show ?case
  proof (cases "dt_less x z")
    case True
    have "\<not> dt_less (foldl ?f z zs) z" using Cons.IH[of z] by simp
    then have "\<not> dt_less (foldl ?f z zs) x"
      using True dt_less_trans by blast
    then show ?thesis using Cons.IH[of z] True by auto
  next
    case False
    have "\<not> dt_less (foldl ?f x zs) x" using Cons.IH[of x] by simp
    then have "\<not> dt_less (foldl ?f x zs) z"
      using False by (rule dt_not_less_trans)
    then show ?thesis using Cons.IH[of x] False by auto
  qed
qed

lemma py_max_greatest:
  "py_max xs = Inr m \<Longrightarrow> m \<in> set xs \<and> (\<forall>y \<in> set xs. \<not> dt_less m y)"
  using foldl_max_greatest by (cases xs) (auto simp: py_max_def)

lemma py_max_empty: "py_max xs = Inl e \<Longrightarrow> xs = [] \<and> e = ValueError"
  by (cases xs) (auto simp: py_max_def)


lemma map_exn_length: "map_exn f xs = Inr ys \<Longrightarrow> length ys = length xs"
  by (induction xs arbitrary: ys) (auto split: sum.splits)

lemma ingest_trades_page:
  assumes "fetch_trades A market_id (Some since) limit cursor (net w) = (Inr p, n1)"
    and "pg_data p \<noteq> []"
    and "map_exn (normalize_trade A) (pg_data p) = Inr normalized"
    and "sb_store_trades S normalized (storage w) = (Inr count, s1)"
    and "\<not> more_pages (pg_next_cursor p) limit (pg_data p)"
  shows "py_max (List.map_filter tr_timestamp normalized) = Inr latest \<Longrightarrow>
         sb_update_checkpoint S (source_name A) ''trades'' latest s1 = (Inr (), s2) \<Longrightarrow>
         ingest_trades (Suc budget) A S market_id (Some since) limit cursor False w
           = Some (Inr count,
                   w\<lparr> net := n1, storage := s2,
                      calls := calls w @ [CFetchTrades market_id (Some since) limit cursor,
                                          CStoreTrades normalized,
                                          CUpdateCheckpoint (source_name A) ''trades'' latest] \<rparr>)"
    and "List.map_filter tr_timestamp normalized = [] \<Longrightarrow>
         ingest_trades (Suc budget) A S market_id (Some since) limit cursor False w
           = Some (Inl ValueError,
                   w\<lparr> net := n1, storage := s1,
                      calls := calls w @ [CFetchTrades market_id (Some since) limit cursor,
                                          CStoreTrades normalized] \<rparr>)"
proof -
  have "length normalized = length (pg_data p)"
    using assms(3) by (rule map_exn_length)
  then have ne: "normalized \<noteq> []"
    using assms(2) by auto
  show "py_max (List.map_filter tr_timestamp normalized) = Inr latest \<Longrightarrow>
         sb_update_checkpoint S (source_name A) ''trades'' latest s1 = (Inr (), s2) \<Longrightarrow>
         ingest_trades (Suc budget) A S market_id (Some since) limit cursor False w
           = Some (Inr count,
                   w\<lparr> net := n1, storage := s2,
                      calls := calls w @ [CFetchTrades market_id (Some since) limit cursor,
                                          CStoreTrades normalized,
                                          CUpdateCheckpoint (source_name A) ''trades'' latest] \<rparr>)"
    using assms ne by (simp add: prog_defs Let_def)
  show "List.map_filter tr_timestamp normalized = [] \<Longrightarrow>
         ingest_trades (Suc budget) A S market_id (Some since) limit cursor False w
           = Some (Inl ValueError,
                   w\<lparr> net := n1, storage := s1,
                      calls := calls w @ [CFetchTrades market_id (Some since) limit cursor,
                                          CStoreTrades normalized] \<rparr>)"
    using assms ne by (simp add: prog_defs Let_def py_max_def)
qed

section \<open>Properties of the client\<close>

lemma request_attempt_fst:
  "fst (request_attempt T method url st) = attempt_outcome (T (sent st))"
  by (simp add: request_attempt_def request_try_def attempt_outcome_def observing_def logger_def Let_def
           split: http_outcome.splits sum.splits)

lemma request_attempt_sent:
  "sent (snd (request_attempt T method url st)) = sent st + 1"
  by (simp add: request_attempt_def request_try_def observing_def logger_def Let_def
           split: http_outcome.splits sum.splits)

lemma retry_call_success:
  "fst (f st) = Inr v \<Longrightarrow> retry_call stop k f st = (Inr v, snd (f st))"
  by (subst retry_call.simps, cases "f st") simp

lemma retry_call_again:
  "fst (f st) = Inl e \<Longrightarrow> retry_if_exception_type e \<Longrightarrow> k < stop \<Longrightarrow>
     retry_call stop k f st = retry_call stop (Suc k) f (snd (f st))"
  by (subst retry_call.simps, cases "f st") simp

lemma retry_call_give_up:
  "fst (f st) = Inl e \<Longrightarrow> retry_if_exception_type e \<Longrightarrow> stop \<le> k \<Longrightarrow>
     retry_call stop k f st = (Inl (RetryError e), snd (f st))"
  by (subst retry_call.simps, cases "f st") simp

lemma retry_call_other:
  "fst (f st) = Inl e \<Longrightarrow> \<not> retry_if_exception_type e \<Longrightarrow>
     retry_call stop k f st = (Inl e, snd (f st))"
  by (subst retry_call.simps, cases "f st") simp

lemma retry_call_sent:
  assumes "\<And>s. sent (snd (f s)) = sent s + 1"
  shows "sent st + 1 \<le> sent (snd (retry_call stop k f st))
       \<and> sent (snd (retry_call stop k f st)) \<le> sent st + (stop - k) + 1"
  using assms
proof (induction stop k f st rule: retry_call.induct)
  case (1 stop k f st)
  obtain r st' where fs: "f st = (r, st')" by (cases "f st")
  have "snd (f st) = st'" by (simp add: fs)
  then have s': "sent st' = sent st + 1" using "1.prems"[of st] by simp
  show ?case
  proof (cases r)
    case (Inr v)
    then show ?thesis using fs s' by (subst (1 2) retry_call.simps) simp
  next
    case (Inl e)
    show ?thesis
    proof (cases "retry_if_exception_type e \<and> \<not> stop \<le> k")
      case True
      have ih: "sent st' + 1 \<le> sent (snd (retry_call stop (Suc k) f st'))
            \<and> sent (snd (retry_call stop (Suc k) f st')) \<le> sent st' + (stop - Suc k) + 1"
        using "1.IH" "1.prems" fs[symmetric] Inl True by blast
      have "retry_call stop k f st = retry_call stop (Suc k) f st'"
        using retry_call_again[of f st e k stop] fs Inl True by simp
      then show ?thesis using ih s' True by auto
    next
      case False
      then show ?thesis using fs s' Inl by (subst (1 2) retry_call.simps) auto
    qed
  qed
qed

lemma request_attempt_status:
  assumes "T (sent st) = Response status body decoded" and "\<not> (200 \<le> status \<and> status < 300)"
  shows "get_counter (observe (snd (request_attempt T method url st))) ''api.requests.error''
           [(''status'', str_nat status)]
         = get_counter (observe st) ''api.requests.error'' [(''status'', str_nat status)] + 1"
    and "(''error'', ''api.request.error'',
            [(''status_code'', str_nat status), (''response_text'', take 500 body)])
         \<in> set (log (observe (snd (request_attempt T method url st))))"
  using assms
  by (auto simp: request_attempt_def request_try_def observing_def logger_def increment_def
        get_counter_def format_key_def Let_def)

text \<open>
  Claim C8. A request makes at least one and at most three attempts. When three
  attempts in a row raise a timeout or network error, the call raises after the third,
  with the retry helper's RetryError that carries the third error; after two such errors
  and a successful answer the call returns that answer, from the third attempt. An
  answer with a status outside 200 to 299 is not retried: the call raises
  HTTPStatusError after that one attempt, the counter \<open>api.requests.error\<close> tagged with
  the status has gone up by one, and the log holds an error entry with the status code
  and the first 500 characters of the body. Such an answer to the second attempt is
  not retried either.
\<close>
theorem request_retry_policy:
  "sent st + 1 \<le> sent (snd (request T method url st))
   \<and> sent (snd (request T method url st)) \<le> sent st + 3
   \<and> (\<forall>e1 e2 e3. T (sent st) = Raises e1 \<and> T (sent st + 1) = Raises e2 \<and> T (sent st + 2) = Raises e3
          \<and> retry_if_exception_type e1 \<and> retry_if_exception_type e2 \<and> retry_if_exception_type e3
        \<longrightarrow> fst (request T method url st) = Inl (RetryError e3)
          \<and> sent (snd (request T method url st)) = sent st + 3)
   \<and> (\<forall>e1 e2 code body v. T (sent st) = Raises e1 \<and> T (sent st + 1) = Raises e2
          \<and> retry_if_exception_type e1 \<and> retry_if_exception_type e2
          \<and> T (sent st + 2) = Response code body (Inr v) \<and> 200 \<le> code \<and> code < 300
        \<longrightarrow> fst (request T method url st) = Inr v
          \<and> sent (snd (request T method url st)) = sent st + 3)
   \<and> (\<forall>status body decoded. T (sent st) = Response status body decoded
          \<and> \<not> (200 \<le> status \<and> status < 300)
        \<longrightarrow> fst (request T method url st) = Inl (HTTPStatusError status)
          \<and> sent (snd (request T method url st)) = sent st + 1
          \<and> get_counter (observe (snd (request T method url st))) ''api.requests.error''
                [(''status'', str_nat status)]
              = get_counter (observe st) ''api.requests.error'' [(''status'', str_nat status)] + 1
          \<and> (''error'', ''api.request.error'',
                [(''status_code'', str_nat status), (''response_text'', take 500 body)])
              \<in> set (log (observe (snd (request T method url st)))))
   \<and> (\<forall>e1 status body decoded. T (sent st) = Raises e1 \<and> retry_if_exception_type e1
          \<and> T (sent st + 1) = Response status body decoded \<and> \<not> (200 \<le> status \<and> status < 300)
        \<longrightarrow> fst (request T method url st) = Inl (HTTPStatusError status)
          \<and> sent (snd (request T method url st)) = sent st + 2)"
proof -
  let ?f = "request_attempt T method url"
  have bound: "sent st + 1 \<le> sent (snd (request T method url st))
             \<and> sent (snd (request T method url st)) \<le> sent st + 3"
    using retry_call_sent[of ?f st 3 1] by (simp add: request_def request_attempt_sent)
  have three: "\<forall>e1 e2 e3. T (sent st) = Raises e1 \<and> T (sent st + 1) = Raises e2 \<and> T (sent st + 2) = Raises e3
          \<and> retry_if_exception_type e1 \<and> retry_if_exception_type e2 \<and> retry_if_exception_type e3
        \<longrightarrow> fst (request T method url st) = Inl (RetryError e3)
          \<and> sent (snd (request T method url st)) = sent st + 3"
  proof (intro allI impI, elim conjE)
    fix e1 e2 e3
    assume t: "T (sent st) = Raises e1" "T (sent st + 1) = Raises e2" "T (sent st + 2) = Raises e3"
      and r: "retry_if_exception_type e1" "retry_if_exception_type e2" "retry_if_exception_type e3"
    let ?s1 = "snd (?f st)"
    let ?s2 = "snd (?f ?s1)"
    have s1: "sent ?s1 = sent st + 1" and s2: "sent ?s2 = sent st + 2"
      by (simp_all add: request_attempt_sent)
    have a1: "fst (?f st) = Inl e1"
      by (simp add: request_attempt_fst t attempt_outcome_def)
    have t': "T (Suc (sent st)) = Raises e2" "T (Suc (Suc (sent st))) = Raises e3"
      using t by simp_all
    have a2: "fst (?f ?s1) = Inl e2"
      by (simp add: request_attempt_fst s1 t' attempt_outcome_def)
    have a3: "fst (?f ?s2) = Inl e3"
      by (simp add: request_attempt_fst s2 t' attempt_outcome_def)
    have "request T method url st = retry_call 3 2 ?f ?s1"
      unfolding request_def using retry_call_again[of ?f st e1 1 3] a1 r(1) by (simp add: eval_nat_numeral)
    also have "\<dots> = retry_call 3 3 ?f ?s2"
      using retry_call_again[of ?f ?s1 e2 2 3] a2 r(2) by (simp add: eval_nat_numeral)
    also have "\<dots> = (Inl (RetryError e3), snd (?f ?s2))"
      using retry_call_give_up[of ?f ?s2 e3 3 3] a3 r(3) by (simp add: eval_nat_numeral)
    finally show "fst (request T method url st) = Inl (RetryError e3)
          \<and> sent (snd (request T method url st)) = sent st + 3"
      by (simp add: request_attempt_sent)
  qed
  have again: "\<forall>e1 e2 code body v. T (sent st) = Raises e1 \<and> T (sent st + 1) = Raises e2
          \<and> retry_if_exception_type e1 \<and> retry_if_exception_type e2
          \<and> T (sent st + 2) = Response code body (Inr v) \<and> 200 \<le> code \<and> code < 300
        \<longrightarrow> fst (request T method url st) = Inr v
          \<and> sent (snd (request T method url st)) = sent st + 3"
  proof (intro allI impI, elim conjE)
    fix e1 e2 code body v
    assume t: "T (sent st) = Raises e1" "T (sent st + 1) = Raises e2"
              "T (sent st + 2) = Response code body (Inr v)"
      and r: "retry_if_exception_type e1" "retry_if_exception_type e2"
      and ok: "200 \<le> code" "code < 300"
    let ?s1 = "snd (?f st)"
    let ?s2 = "snd (?f ?s1)"
    have s1: "sent ?s1 = sent st + 1" and s2: "sent ?s2 = sent st + 2"
      by (simp_all add: request_attempt_sent)
    have t': "T (Suc (sent st)) = Raises e2" "T (Suc (Suc (sent st))) = Response code body (Inr v)"
      using t by simp_all
    have a1: "fst (?f st) = Inl e1"
      by (simp add: request_attempt_fst t attempt_outcome_def)
    have a2: "fst (?f ?s1) = Inl e2"
      by (simp add: request_attempt_fst s1 t' attempt_outcome_def)
    have a3: "fst (?f ?s2) = Inr v"
      using ok by (simp add: request_attempt_fst s2 t' attempt_outcome_def)
    have "request T method url st = retry_call 3 2 ?f ?s1"
      unfolding request_def using retry_call_again[of ?f st e1 1 3] a1 r(1)
      by (simp add: eval_nat_numeral)
    also have "\<dots> = retry_call 3 3 ?f ?s2"
      using retry_call_again[of ?f ?s1 e2 2 3] a2 r(2) by (simp add: eval_nat_numeral)
    also have "\<dots> = (Inr v, snd (?f ?s2))"
      using retry_call_success[of ?f ?s2 v 3 3] a3 by simp
    finally show "fst (request T method url st) = Inr v
          \<and> sent (snd (request T method url st)) = sent st + 3"
      by (simp add: request_attempt_sent)
  qed
  have status: "\<forall>status body decoded. T (sent st) = Response status body decoded
          \<and> \<not> (200 \<le> status \<and> status < 300)
        \<longrightarrow> fst (request T method url st) = Inl (HTTPStatusError status)
          \<and> sent (snd (request T method url st)) = sent st + 1
          \<and> get_counter (observe (snd (request T method url st))) ''api.requests.error''
                [(''status'', str_nat status)]
              = get_counter (observe st) ''api.requests.error'' [(''status'', str_nat status)] + 1
          \<and> (''error'', ''api.request.error'',
                [(''status_code'', str_nat status), (''response_text'', take 500 body)])
              \<in> set (log (observe (snd (request T method url st))))"
  proof (intro allI impI, elim conjE)
    fix status body decoded
    assume t: "T (sent st) = Response status body decoded"
      and n: "\<not> (200 \<le> status \<and> status < 300)"
    have a1: "fst (?f st) = Inl (HTTPStatusError status)"
      using n by (auto simp: request_attempt_fst t attempt_outcome_def)
    have "\<not> retry_if_exception_type (HTTPStatusError status)"
      by (simp add: retry_if_exception_type_def)
    with a1 have "request T method url st = (Inl (HTTPStatusError status), snd (?f st))"
      unfolding request_def using retry_call_other[of ?f st "HTTPStatusError status" 3 1] by simp
    then show "fst (request T method url st) = Inl (HTTPStatusError status)
          \<and> sent (snd (request T method url st)) = sent st + 1
          \<and> get_counter (observe (snd (request T method url st))) ''api.requests.error''
                [(''status'', str_nat status)]
              = get_counter (observe st) ''api.requests.error'' [(''status'', str_nat status)] + 1
          \<and> (''error'', ''api.request.error'',
                [(''status_code'', str_nat status), (''response_text'', take 500 body)])
              \<in> set (log (observe (snd (request T method url st))))"
      using request_attempt_status[of T st status body decoded _ url] t n
      by (simp add: request_attempt_sent)
  qed
  have later: "\<forall>e1 status body decoded. T (sent st) = Raises e1 \<and> retry_if_exception_type e1
          \<and> T (sent st + 1) = Response status body decoded \<and> \<not> (200 \<le> status \<and> status < 300)
        \<longrightarrow> fst (request T method url st) = Inl (HTTPStatusError status)
          \<and> sent (snd (request T method url st)) = sent st + 2"
  proof (intro allI impI, elim conjE)
    fix e1 status body decoded
    assume t: "T (sent st) = Raises e1" "T (sent st + 1) = Response status body decoded"
      and r: "retry_if_exception_type e1"
      and n: "\<not> (200 \<le> status \<and> status < 300)"
    let ?s1 = "snd (?f st)"
    have s1: "sent ?s1 = sent st + 1"
      by (simp add: request_attempt_sent)
    have t': "T (Suc (sent st)) = Response status body decoded"
      using t by simp
    have a1: "fst (?f st) = Inl e1"
      by (simp add: request_attempt_fst t attempt_outcome_def)
    have a2: "fst (?f ?s1) = Inl (HTTPStatusError status)"
      using n by (auto simp: request_attempt_fst s1 t' attempt_outcome_def)
    have nr: "\<not> retry_if_exception_type (HTTPStatusError status)"
      by (simp add: retry_if_exception_type_def)
    have "request T method url st = retry_call 3 2 ?f ?s1"
      unfolding request_def using retry_call_again[of ?f st e1 1 3] a1 r
      by (simp add: eval_nat_numeral)
    also have "\<dots> = (Inl (HTTPStatusError status), snd (?f ?s1))"
      using retry_call_other[of ?f ?s1 "HTTPStatusError status" 3 2] a2 nr by simp
    finally show "fst (request T method url st) = Inl (HTTPStatusError status)
          \<and> sent (snd (request T method url st)) = sent st + 2"
      by (simp add: request_attempt_sent)
  qed
  show ?thesis using bound three again status later by blast
qed

text \<open>A transport that never connects, and a transport that answers 404.\<close>
theorem request_retry_policy_witness:
  "fst (request failing_transport ''POST'' ''/graphql'' client_start) = Inl (RetryError NetworkError)
   \<and> sent (snd (request failing_transport ''POST'' ''/graphql'' client_start)) = 3
   \<and> fst (request not_found_transport ''POST'' ''/graphql'' client_start) = Inl (HTTPStatusError 404)
   \<and> sent (snd (request not_found_transport ''POST'' ''/graphql'' client_start)) = 1
   \<and> get_counter (observe (snd (request not_found_transport ''POST'' ''/graphql'' client_start)))
        ''api.requests.error'' [(''status'', str_nat 404)] = 1"
proof -
  note a = request_retry_policy[of client_start failing_transport "''POST''" "''/graphql''"]
  note b = request_retry_policy[of client_start not_found_transport "''POST''" "''/graphql''"]
  have r: "retry_if_exception_type NetworkError"
    by (simp add: retry_if_exception_type_def)
  have z: "get_counter (observe client_start) ''api.requests.error'' [(''status'', str_nat 404)] = 0"
          "sent client_start = 0"
    by (simp_all add: client_start_def get_counter_def)
  have a': "fst (request failing_transport ''POST'' ''/graphql'' client_start)
              = Inl (RetryError NetworkError)
            \<and> sent (snd (request failing_transport ''POST'' ''/graphql'' client_start)) = 3"
    using a[THEN conjunct2, THEN conjunct2, THEN conjunct1] r z(2)
    by (simp add: failing_transport_def)
  have b': "fst (request not_found_transport ''POST'' ''/graphql'' client_start) = Inl (HTTPStatusError 404)
   \<and> sent (snd (request not_found_transport ''POST'' ''/graphql'' client_start)) = 1
   \<and> get_counter (observe (snd (request not_found_transport ''POST'' ''/graphql'' client_start)))
        ''api.requests.error'' [(''status'', str_nat 404)] = 1"
    using b[THEN conjunct2, THEN conjunct2, THEN conjunct2, THEN conjunct2, THEN conjunct1] z
    by (simp add: not_found_transport_def)
  show ?thesis using a' b' by blast
qed

section \<open>Properties of the commands\<close>



lemma parse_examples:
  "parse_date exact_lib ''yesterday'' = Inl ValueError"
  "parse_date exact_lib ''2024-01-01'' = Inr (mk_datetime 2024 1 1 0 0 0)"
  "parse_date exact_lib ''2024-01-03'' = Inr (mk_datetime 2024 1 3 0 0 0)"
  by (simp_all add: exact_lib_def)



lemma call_engine_events:
  "call_engine ev f st = (r, st') \<Longrightarrow> events st' = events st @ [ev]"
  by (auto simp: call_engine_def split: prod.splits)

lemma backfill_loop_days:
  "backfill_loop env market_id no_raw end_dt cursor total_count st = (Inr n, st') \<Longrightarrow>
     \<exists>days. day_chain end_dt cursor days
          \<and> events st' = events st @ concat (map (day_events market_id no_raw) days)
          \<and> n = total_count + sum_list (map day_count days)"
proof (induction env market_id no_raw end_dt cursor total_count st rule: backfill_loop.induct)
  case (1 env market_id no_raw end_dt current total_count st)
  show ?case
  proof (cases "dt_less current end_dt")
    case False
    then have "n = total_count" "st' = st"
      using "1.prems" by (simp_all add: backfill_loop.simps)
    then have "day_chain end_dt current []
          \<and> events st' = events st @ concat (map (day_events market_id no_raw) [])
          \<and> n = total_count + sum_list (map day_count [])"
      using False by simp
    then show ?thesis by blast
  next
    case True
    let ?nd = "day_end end_dt current"
    let ?st1 = "emit [EvEcho (MsgBackfilling current ?nd)] st"
    obtain r st2 where ce: "call_engine (EvIngestTrades market_id (Some current) None (\<not> no_raw))
          (engine_ingest_trades env market_id (Some current) None (\<not> no_raw)) ?st1 = (r, st2)"
      by (cases "call_engine (EvIngestTrades market_id (Some current) None (\<not> no_raw))
          (engine_ingest_trades env market_id (Some current) None (\<not> no_raw)) ?st1")
    from "1.prems" True ce obtain count where r: "r = Inr count"
      by (cases r) (simp_all add: backfill_loop.simps Let_def)
    from "1.prems" True ce r obtain current' where
      ad: "add_days (replace_hms ?nd 0 0 0) 1 = Inr current'"
      by (cases "add_days (replace_hms ?nd 0 0 0) 1") (simp_all add: backfill_loop.simps Let_def)
    let ?st3 = "emit [EvEcho (MsgDayIngested count)] st2"
    have rec: "backfill_loop env market_id no_raw end_dt current' (total_count + count) ?st3 = (Inr n, st')"
      using "1.prems" True ce r ad by (simp add: backfill_loop.simps Let_def)
    from "1.IH"[OF True refl refl ce[symmetric] r ad rec]
    obtain days where d: "day_chain end_dt current' days"
      "events st' = events ?st3 @ concat (map (day_events market_id no_raw) days)"
      "n = total_count + count + sum_list (map day_count days)"
      by blast
    have ord: "ordinal ?nd < max_ordinal" "0 \<le> ordinal ?nd"
      and cur: "current' = ?nd\<lparr> ordinal := ordinal ?nd + 1, hour := 0, minute := 0, second := 0 \<rparr>"
      using ad by (auto simp: add_days_def replace_hms_def split: if_splits)
    have nd: "?nd = (if dt_less end_dt (current\<lparr> hour := 23, minute := 59, second := 59 \<rparr>) then end_dt
                  else current\<lparr> hour := 23, minute := 59, second := 59 \<rparr>)"
      by (simp add: day_end_def replace_hms_def)
    have chain: "day_chain end_dt current ((current, ?nd, count) # days)"
      using True d(1) ord cur nd by simp
    have ev: "events ?st3 = events st @ day_events market_id no_raw (current, ?nd, count)"
      using call_engine_events[OF ce] by (simp add: emit_def)
    have e2: "events st' = events st @ concat (map (day_events market_id no_raw) ((current, ?nd, count) # days))"
      using d(2) ev by simp
    have e3: "n = total_count + sum_list (map day_count ((current, ?nd, count) # days))"
      using d(3) by (simp add: day_count_def)
    show ?thesis using chain e2 e3 by blast
  qed
qed

lemma backfill_loop_returns:
  assumes eng: "\<And>m s l r w. \<exists>k w'. engine_ingest_trades env m s l r w = (Inr k, w')"
  shows "ordinal end_dt < max_ordinal \<Longrightarrow> 0 \<le> ordinal cursor \<Longrightarrow>
     \<exists>n st'. backfill_loop env market_id no_raw end_dt cursor total_count st = (Inr n, st')"
  using eng
proof (induction env market_id no_raw end_dt cursor total_count st rule: backfill_loop.induct)
  case (1 env market_id no_raw end_dt current total_count st)
  show ?case
  proof (cases "dt_less current end_dt")
    case False
    then show ?thesis by (simp add: backfill_loop.simps)
  next
    case True
    let ?nd = "day_end end_dt current"
    let ?st1 = "emit [EvEcho (MsgBackfilling current ?nd)] st"
    obtain k w' where e: "engine_ingest_trades env market_id (Some current) None (\<not> no_raw)
                            (engine_world ?st1) = (Inr k, w')"
      using "1.prems"(3) by blast
    let ?st2 = "?st1\<lparr> events := events ?st1 @ [EvIngestTrades market_id (Some current) None (\<not> no_raw)],
                       engine_world := w' \<rparr>"
    have ce: "call_engine (EvIngestTrades market_id (Some current) None (\<not> no_raw))
          (engine_ingest_trades env market_id (Some current) None (\<not> no_raw)) ?st1 = (Inr k, ?st2)"
      using e by (simp add: call_engine_def)
    have le: "ordinal current \<le> ordinal end_dt"
      using True by (auto simp: dt_less_def)
    have o: "ordinal current \<le> ordinal ?nd" "ordinal ?nd \<le> ordinal end_dt"
      using le by (simp_all add: day_end_def replace_hms_def Let_def)
    let ?c' = "(replace_hms ?nd 0 0 0)\<lparr> ordinal := ordinal ?nd + 1 \<rparr>"
    have ad: "add_days (replace_hms ?nd 0 0 0) 1 = Inr ?c'"
      using o "1.prems"(1,2) by (simp add: add_days_def replace_hms_def)
    have "0 \<le> ordinal ?c'"
      using o "1.prems"(2) by (simp add: replace_hms_def)
    from "1.IH"[OF True refl refl ce[symmetric] refl ad "1.prems"(1) this "1.prems"(3)]
    obtain n st' where "backfill_loop env market_id no_raw end_dt ?c' (total_count + k)
                          (emit [EvEcho (MsgDayIngested k)] ?st2) = (Inr n, st')"
      by blast
    then have "backfill_loop env market_id no_raw end_dt current total_count st = (Inr n, st')"
      using True ce ad by (subst backfill_loop.simps) (simp add: Let_def)
    then show ?thesis by blast
  qed
qed

lemmas date_defs = mk_datetime_def ymd2ord_def days_before_year_def days_before_month_def
  is_leap_def dt_less_def day_end_def replace_hms_def add_days_def max_ordinal_def

lemma backfill_two_days:
  "backfill_loop counting_env None False (mk_datetime 2024 1 3 0 0 0) (mk_datetime 2024 1 1 0 0 0) 0
     cli_ready = (Inr 14, cli_backfilled)"
  by (simp add: backfill_loop.simps date_defs counting_env_def cli_ready_def cli_backfilled_def
        call_engine_def emit_def storage_init_calls_def Let_def)

lemma backfill_unfold:
  "storage_fault env = None \<Longrightarrow> parse_date L a = Inr sd \<Longrightarrow> parse_date L b = Inr ed \<Longrightarrow>
   dt_less sd ed \<Longrightarrow>
   backfill_loop env market_id no_raw ed sd 0 (get_adapter (snd (get_storage env st))) = (Inr n, st') \<Longrightarrow>
   backfill env L a b Trades market_id no_raw st
     = (0, emit [EvEcho (MsgBackfillComplete n), EvAdapterClose] st')"
  by (simp add: backfill_def get_storage_def ebind_def Let_def)

text \<open>
  Claim C9, amended. A trades backfill that completes has run a chain of day windows
  from the start: each window begins at the cursor, ends at 23:59:59 of the cursor's
  day or at the overall end if that is earlier, ingests trades with \<open>since\<close> equal to the
  cursor, and hands on midnight of the following day; the loop stops when the cursor
  is no longer before the end, and the total it reports is the sum of the counts of the
  windows. It does complete whenever every ingestion succeeds and the end lies before
  the last representable day. With valid dates, start before end, the command then
  prints that total, closes the adapter and exits with status 0. For 2024-01-01 to
  2024-01-03 the windows are 01-01 00:00 to 01-01 23:59:59 and 01-02 00:00 to
  01-02 23:59:59.
\<close>
theorem backfill_day_by_day:
  "(backfill_loop env market_id no_raw end_dt cursor total_count st = (Inr n, st')
      \<longrightarrow> (\<exists>days. day_chain end_dt cursor days
             \<and> events st' = events st @ concat (map (day_events market_id no_raw) days)
             \<and> n = total_count + sum_list (map day_count days)))
   \<and> ((\<forall>m s l r w. \<exists>k w'. engine_ingest_trades env m s l r w = (Inr k, w'))
       \<and> ordinal end_dt < max_ordinal \<and> 0 \<le> ordinal cursor
      \<longrightarrow> (\<exists>k s. backfill_loop env market_id no_raw end_dt cursor total_count st = (Inr k, s)))
   \<and> (storage_fault env = None \<and> parse_date L a = Inr sd \<and> parse_date L b = Inr ed \<and> dt_less sd ed
       \<and> backfill_loop env market_id no_raw ed sd 0 (get_adapter (snd (get_storage env st0))) = (Inr n, st')
      \<longrightarrow> backfill env L a b Trades market_id no_raw st0
            = (0, emit [EvEcho (MsgBackfillComplete n), EvAdapterClose] st'))"
proof -
  have c1: "backfill_loop env market_id no_raw end_dt cursor total_count st = (Inr n, st')
      \<longrightarrow> (\<exists>days. day_chain end_dt cursor days
             \<and> events st' = events st @ concat (map (day_events market_id no_raw) days)
             \<and> n = total_count + sum_list (map day_count days))"
    using backfill_loop_days by blast
  have c2: "(\<forall>m s l r w. \<exists>k w'. engine_ingest_trades env m s l r w = (Inr k, w'))
       \<and> ordinal end_dt < max_ordinal \<and> 0 \<le> ordinal cursor
      \<longrightarrow> (\<exists>k s. backfill_loop env market_id no_raw end_dt cursor total_count st = (Inr k, s))"
    using backfill_loop_returns[of env end_dt cursor market_id no_raw total_count st] by blast
  have c3: "storage_fault env = None \<and> parse_date L a = Inr sd \<and> parse_date L b = Inr ed \<and> dt_less sd ed
       \<and> backfill_loop env market_id no_raw ed sd 0 (get_adapter (snd (get_storage env st0))) = (Inr n, st')
      \<longrightarrow> backfill env L a b Trades market_id no_raw st0
            = (0, emit [EvEcho (MsgBackfillComplete n), EvAdapterClose] st')"
    using backfill_unfold by blast
  show ?thesis using c1 c2 c3 by blast
qed

lemma cli_ready_eq: "get_adapter (snd (get_storage counting_env cli_start)) = cli_ready"
  by (simp add: get_adapter_def get_storage_def counting_env_def cli_start_def cli_ready_def emit_def
        storage_init_calls_def)

lemma backfill_example:
  "backfill counting_env exact_lib ''2024-01-01'' ''2024-01-03'' Trades None False cli_start
     = (0, emit [EvEcho (MsgBackfillComplete 14), EvAdapterClose] cli_backfilled)"
proof -
  have lt: "dt_less (mk_datetime 2024 1 1 0 0 0) (mk_datetime 2024 1 3 0 0 0)"
    by (simp add: date_defs)
  have sf: "storage_fault counting_env = None"
    by (simp add: counting_env_def)
  show ?thesis
    using backfill_unfold[OF sf parse_examples(2) parse_examples(3) lt, of None False cli_start 14
            cli_backfilled] backfill_two_days
    by (simp add: cli_ready_eq)
qed

text \<open>
  Claim C9 gives, for start 2024-01-01 and end 2024-01-03, the second day window as
  running from 01-02 00:00 to 01-03 00:00. The end of a window is 23:59:59 of the
  cursor's day unless the overall end is earlier, and 2024-01-03 00:00 is later than
  2024-01-02 23:59:59: the second window ends at 01-02 23:59:59.
\<close>
theorem backfill_windows_counterexample:
  "windows (events (snd (backfill counting_env exact_lib ''2024-01-01'' ''2024-01-03'' Trades None False
                           cli_start)))
     = [(mk_datetime 2024 1 1 0 0 0, mk_datetime 2024 1 1 23 59 59),
        (mk_datetime 2024 1 2 0 0 0, mk_datetime 2024 1 2 23 59 59)]
   \<and> windows (events (snd (backfill counting_env exact_lib ''2024-01-01'' ''2024-01-03'' Trades None False
                           cli_start)))
     \<noteq> [(mk_datetime 2024 1 1 0 0 0, mk_datetime 2024 1 1 23 59 59),
        (mk_datetime 2024 1 2 0 0 0, mk_datetime 2024 1 3 0 0 0)]"
  by (simp add: backfill_example cli_backfilled_def emit_def storage_init_calls_def
        mk_datetime_def)

text \<open>The backfill from 2024-01-01 to 2024-01-03 on the engine stub: two windows, 14 records.\<close>
theorem backfill_day_by_day_witness:
  "backfill_loop counting_env None False (mk_datetime 2024 1 3 0 0 0) (mk_datetime 2024 1 1 0 0 0) 0
     cli_ready = (Inr 14, cli_backfilled)
   \<and> (\<exists>days. day_chain (mk_datetime 2024 1 3 0 0 0) (mk_datetime 2024 1 1 0 0 0) days
         \<and> events cli_backfilled = events cli_ready @ concat (map (day_events None False) days)
         \<and> 14 = 0 + sum_list (map day_count days))
   \<and> backfill counting_env exact_lib ''2024-01-01'' ''2024-01-03'' Trades None False cli_start
       = (0, emit [EvEcho (MsgBackfillComplete 14), EvAdapterClose] cli_backfilled)"
proof -
  note th = backfill_day_by_day[of counting_env None False "mk_datetime 2024 1 3 0 0 0"
              "mk_datetime 2024 1 1 0 0 0" 0 cli_ready 14 cli_backfilled exact_lib
              "''2024-01-01''" "mk_datetime 2024 1 1 0 0 0" "''2024-01-03''"
              "mk_datetime 2024 1 3 0 0 0" cli_start]
  have lt: "dt_less (mk_datetime 2024 1 1 0 0 0) (mk_datetime 2024 1 3 0 0 0)"
    by (simp add: date_defs)
  have sf: "storage_fault counting_env = None"
    by (simp add: counting_env_def)
  have a: "\<exists>days. day_chain (mk_datetime 2024 1 3 0 0 0) (mk_datetime 2024 1 1 0 0 0) days
         \<and> events cli_backfilled = events cli_ready @ concat (map (day_events None False) days)
         \<and> 14 = 0 + sum_list (map day_count days)"
    using th[THEN conjunct1] backfill_two_days by blast
  have b: "backfill counting_env exact_lib ''2024-01-01'' ''2024-01-03'' Trades None False cli_start
       = (0, emit [EvEcho (MsgBackfillComplete 14), EvAdapterClose] cli_backfilled)"
    using th[THEN conjunct2, THEN conjunct2] sf parse_examples(2,3) lt backfill_two_days
    by (simp add: cli_ready_eq)
  show ?thesis using backfill_two_days a b by blast
qed

end
